theory Spec2Isabelle
  imports Complex_Main "HOL-Library.AList"
begin

section \<open>Data model of \<open>LoRAPruneTrainer._inner_training_loop\<close>\<close>

text \<open>
  The embedding follows \<open>src/loraprune/trainer_ul.py\<close>. Python ints are \<open>int\<close>,
  the sparsity ratios are \<open>real\<close>, a Python \<open>dict\<close> is an association list in
  insertion order, and the two sensitivity dicts are objects in a store, so that
  the two trainer variables hold addresses and aliasing is visible.
  The loss accumulator \<open>tr_loss\<close> and the FLOP counter only feed logging and are
  left out of the state, as are the set-up of lines 85-223 (the dataloaders, the
  number of steps, the checkpoint to resume from): \<open>max_steps\<close> and the starting
  \<open>global_step\<close> are part of the state the loop is started in.
\<close>

type_synonym name = string
type_synonym addr = nat
type_synonym 'v dict = "(name \<times> 'v) list"

datatype error =
    ZeroDivisionError
  | KeyError name
  | UnboundLocalError string
  | UnknownMetric
  | MissingGradient
  | InvalidSchedule
  | InconsistentShapes

text \<open>The result of running a piece of the loop: it ran to its end, or an
  exception left it; either way the mutated objects are in the state carried.\<close>

datatype 'a outcome = Completed 'a | Raised error 'a

fun state_of :: "'a outcome \<Rightarrow> 'a" where
  "state_of (Completed s) = s"
| "state_of (Raised e s) = s"

fun completed :: "'a outcome \<Rightarrow> bool" where
  "completed (Completed s) = True"
| "completed (Raised e s) = False"

fun and_then :: "'a outcome \<Rightarrow> ('a \<Rightarrow> 'a outcome) \<Rightarrow> 'a outcome" where
  "and_then (Completed s) f = f s"
| "and_then (Raised e s) f = Raised e s"

text \<open>Calls to the external collaborators are recorded, newest first.\<close>

datatype 'd event =
    ZeroGrad
  | Unfreeze
  | InitSensitivityDict addr
  | TrainingStep
  | DeepspeedStep
  | ClipGradNorm
  | UpdateSensitivityDict addr
  | ScheduleSparsityRatio int int
  | UnlearningPrune "'d dict" real real
  | OptimizerStep
  | LrSchedulerStep

record 's store =
  cells :: "addr \<Rightarrow> 's dict"
  next_free :: addr

record control =
  should_epoch_stop :: bool
  should_training_stop :: bool

text \<open>The fields of \<open>self\<close> and \<open>args\<close> the loop reads.\<close>

record config =
  ratio :: real
  init_ratio :: real
  warmup_iters :: real
  cooldown_iters :: real
  prune_freq :: int
  prune_metric :: string
  unlearning_threshold :: real
  deepspeed :: bool
  max_grad_norm :: "real option"
  gradient_accumulation_steps :: int
  has_len :: bool

text \<open>
  The code this file does not contain: \<open>loraprune.utils\<close>, \<open>loraprune.utils_ul\<close>,
  the \<open>transformers\<close> trainer, the optimizer and the callbacks. The loop is
  parametrised by them. A callback is given the global step and the control
  flags and returns the flags; the tracker's functions work on the store; the
  tracker's update, the scheduler and the pruning call can raise, the combiner
  returns a score.
\<close>

record ('m, 'o, 'b, 's, 'd) collaborators =
  zero_grad :: "'m \<Rightarrow> 'm"
  unfreeze :: "'m \<Rightarrow> 'm"
  init_sensitivity_dict :: "'m \<Rightarrow> 's store \<Rightarrow> addr \<times> 's store"
  update_sensitivity_dict :: "'m \<Rightarrow> addr \<Rightarrow> string \<Rightarrow> 's store \<Rightarrow> error + addr \<times> 's store"
  schedule_sparsity_ratio :: "int \<Rightarrow> int \<Rightarrow> real \<Rightarrow> real \<Rightarrow> real \<Rightarrow> real \<Rightarrow> error + real"
  compute_dual_sensitivity :: "'s \<Rightarrow> 's \<Rightarrow> 'd"
  unlearning_prune :: "'m \<Rightarrow> 'd dict \<Rightarrow> real \<Rightarrow> real \<Rightarrow> error + 'm"
  training_step :: "'m \<Rightarrow> 'b \<Rightarrow> 'm"
  deepspeed_step :: "'m \<Rightarrow> 'o \<Rightarrow> 'm \<times> 'o"
  clip_grad_norm :: "'m \<Rightarrow> real \<Rightarrow> 'm"
  optimizer_step :: "'m \<Rightarrow> 'o \<Rightarrow> 'm \<times> 'o"
  lr_scheduler_step :: "'o \<Rightarrow> 'o"
  on_epoch_begin :: "int \<Rightarrow> control \<Rightarrow> control"
  on_step_begin :: "int \<Rightarrow> control \<Rightarrow> control"
  on_step_end :: "int \<Rightarrow> control \<Rightarrow> control"
  on_substep_end :: "int \<Rightarrow> control \<Rightarrow> control"
  on_epoch_end :: "int \<Rightarrow> control \<Rightarrow> control"
  maybe_log_save_evaluate :: "int \<Rightarrow> control \<Rightarrow> control"

text \<open>The local variables and the fields of \<open>self.state\<close> the loop mutates.\<close>

record ('m, 'o, 's, 'd) trainer =
  model :: 'm
  optimizer :: 'o
  heap :: "'s store"
  forget_sensitivity_dict :: addr
  retain_sensitivity_dict :: addr
  global_step :: int
  max_steps :: int
  epoch :: real
  total_batched_samples :: int
  step_var :: "int option"
  grad_norm_bound :: bool
  control :: control
  trace :: "'d event list"

definition record_call ::
  "'d event \<Rightarrow> ('m, 'o, 's, 'd) trainer \<Rightarrow> ('m, 'o, 's, 'd) trainer" where
  "record_call e s = s\<lparr>trace := e # trace s\<rparr>"

section \<open>Before the first epoch (lines 224-232)\<close>

text \<open>The locals \<open>step\<close> and \<open>grad_norm\<close> are unbound when the function starts.\<close>

definition start_training ::
  "('m, 'o, 'b, 's, 'd) collaborators \<Rightarrow> config \<Rightarrow> ('m, 'o, 's, 'd) trainer
    \<Rightarrow> ('m, 'o, 's, 'd) trainer" where
  "start_training env cfg s0 =
    (let s1 = record_call ZeroGrad (s0\<lparr>model := zero_grad env (model s0),
                                          total_batched_samples := 0,
                                          step_var := None, grad_norm_bound := False\<rparr>);
         s2 = (if prune_metric cfg = ''grad''
               then record_call Unfreeze (s1\<lparr>model := unfreeze env (model s1)\<rparr>)
               else s1);
         (fa, h1) = init_sensitivity_dict env (model s2) (heap s2);
         s3 = record_call (InitSensitivityDict fa) (s2\<lparr>heap := h1, forget_sensitivity_dict := fa\<rparr>);
         (ra, h2) = init_sensitivity_dict env (model s3) (heap s3)
     in record_call (InitSensitivityDict ra) (s3\<lparr>heap := h2, retain_sensitivity_dict := ra\<rparr>))"

section \<open>The phases of an optimizer-boundary step\<close>

text \<open>Gradient clipping (lines 295-314 and 381-400): the four branches all call
  an external clipping routine and bind \<open>grad_norm\<close>.\<close>

definition clip_phase ::
  "('m, 'o, 'b, 's, 'd) collaborators \<Rightarrow> config \<Rightarrow> ('m, 'o, 's, 'd) trainer
    \<Rightarrow> ('m, 'o, 's, 'd) trainer outcome" where
  "clip_phase env cfg s =
    (case max_grad_norm cfg of
       None \<Rightarrow> Completed s
     | Some g \<Rightarrow>
         if 0 < g \<and> \<not> deepspeed cfg
         then Completed (record_call ClipGradNorm
                (s\<lparr>model := clip_grad_norm env (model s) g, grad_norm_bound := True\<rparr>))
         else Completed s)"

text \<open>Lines 317-318: the forget stream updates the forget dict.\<close>

definition forget_sensitivity_phase ::
  "('m, 'o, 'b, 's, 'd) collaborators \<Rightarrow> config \<Rightarrow> ('m, 'o, 's, 'd) trainer
    \<Rightarrow> ('m, 'o, 's, 'd) trainer outcome" where
  "forget_sensitivity_phase env cfg s =
    (if deepspeed cfg then Completed s
     else case update_sensitivity_dict env (model s) (forget_sensitivity_dict s)
                 (prune_metric cfg) (heap s) of
            Inl e \<Rightarrow> Raised e (record_call (UpdateSensitivityDict (forget_sensitivity_dict s)) s)
          | Inr (a, h) \<Rightarrow>
              Completed (record_call (UpdateSensitivityDict (forget_sensitivity_dict s))
                (s\<lparr>heap := h, forget_sensitivity_dict := a\<rparr>)))"

text \<open>Lines 403-404: the retain stream updates the retain dict.\<close>

definition retain_sensitivity_phase ::
  "('m, 'o, 'b, 's, 'd) collaborators \<Rightarrow> config \<Rightarrow> ('m, 'o, 's, 'd) trainer
    \<Rightarrow> ('m, 'o, 's, 'd) trainer outcome" where
  "retain_sensitivity_phase env cfg s =
    (if deepspeed cfg then Completed s
     else case update_sensitivity_dict env (model s) (retain_sensitivity_dict s)
                 (prune_metric cfg) (heap s) of
            Inl e \<Rightarrow> Raised e (record_call (UpdateSensitivityDict (retain_sensitivity_dict s)) s)
          | Inr (a, h) \<Rightarrow>
              Completed (record_call (UpdateSensitivityDict (retain_sensitivity_dict s))
                (s\<lparr>heap := h, retain_sensitivity_dict := a\<rparr>)))"

text \<open>Lines 319-321 and 405-407: the scheduled ratio of the current global step.\<close>

definition scheduled_ratio ::
  "('m, 'o, 'b, 's, 'd) collaborators \<Rightarrow> config \<Rightarrow> ('m, 'o, 's, 'd) trainer \<Rightarrow> error + real" where
  "scheduled_ratio env cfg s =
    schedule_sparsity_ratio env (global_step s) (max_steps s) (warmup_iters cfg)
      (cooldown_iters cfg) (init_ratio cfg) (ratio cfg)"

text \<open>Line 409. Python's \<open>%\<close> on ints is floor modulo, as \<open>mod\<close> on \<open>int\<close> is, and
  raises on a zero divisor; \<open>and\<close> evaluates the modulo first.\<close>

definition prune_gate :: "config \<Rightarrow> int \<Rightarrow> real \<Rightarrow> error + bool" where
  "prune_gate cfg gs r =
    (if prune_freq cfg = 0 then Inl ZeroDivisionError
     else Inr (gs mod prune_freq cfg = 0 \<and> init_ratio cfg < r \<and> r < ratio cfg))"

text \<open>Lines 411-416: the loop over the keys of the forget dict, filling the
  local dict \<open>dual_sensitivity\<close>.\<close>

fun build_dual_sensitivity ::
  "('s \<Rightarrow> 's \<Rightarrow> 'd) \<Rightarrow> 's dict \<Rightarrow> 's dict \<Rightarrow> name list \<Rightarrow> 'd dict \<Rightarrow> error + 'd dict" where
  "build_dual_sensitivity combine fd rd [] acc = Inr acc"
| "build_dual_sensitivity combine fd rd (n # ns) acc =
    (case map_of fd n of
       None \<Rightarrow> Inl (KeyError n)
     | Some f \<Rightarrow>
        (case map_of rd n of
           None \<Rightarrow> Inl (KeyError n)
         | Some r \<Rightarrow> build_dual_sensitivity combine fd rd ns (AList.update n (combine f r) acc)))"

definition dual_sensitivity_of ::
  "('m, 'o, 'b, 's, 'd) collaborators \<Rightarrow> ('m, 'o, 's, 'd) trainer \<Rightarrow> error + 'd dict" where
  "dual_sensitivity_of env s =
    (let fd = cells (heap s) (forget_sensitivity_dict s);
         rd = cells (heap s) (retain_sensitivity_dict s)
     in build_dual_sensitivity (compute_dual_sensitivity env) fd rd (map fst fd) [])"

text \<open>Lines 409-424: the gate, the dual scores and the pruning call.\<close>

definition prune_phase ::
  "('m, 'o, 'b, 's, 'd) collaborators \<Rightarrow> config \<Rightarrow> real \<Rightarrow> ('m, 'o, 's, 'd) trainer
    \<Rightarrow> ('m, 'o, 's, 'd) trainer outcome" where
  "prune_phase env cfg r s =
    (case prune_gate cfg (global_step s) r of
       Inl e \<Rightarrow> Raised e s
     | Inr False \<Rightarrow> Completed s
     | Inr True \<Rightarrow>
        (case dual_sensitivity_of env s of
           Inl e \<Rightarrow> Raised e s
         | Inr dual \<Rightarrow>
            (case unlearning_prune env (model s) dual r (unlearning_threshold cfg) of
               Inl e \<Rightarrow> Raised e (record_call (UnlearningPrune dual r (unlearning_threshold cfg)) s)
             | Inr m \<Rightarrow>
                 Completed (record_call (UnlearningPrune dual r (unlearning_threshold cfg))
                   (s\<lparr>model := m\<rparr>)))))"

text \<open>Lines 426-432: the retain stream steps the optimizer, and the learning-rate
  scheduler unless DeepSpeed is in use.\<close>

definition optimizer_phase ::
  "('m, 'o, 'b, 's, 'd) collaborators \<Rightarrow> config \<Rightarrow> ('m, 'o, 's, 'd) trainer
    \<Rightarrow> ('m, 'o, 's, 'd) trainer outcome" where
  "optimizer_phase env cfg s =
    (let (m, opt) = optimizer_step env (model s) (optimizer s);
         s1 = record_call OptimizerStep (s\<lparr>model := m, optimizer := opt\<rparr>)
     in if \<not> deepspeed cfg
        then Completed (record_call LrSchedulerStep
               (s1\<lparr>optimizer := lr_scheduler_step env (optimizer s1)\<rparr>))
        else Completed s1)"

text \<open>Lines 335-340 and 434-439: \<open>zero_grad\<close>, the step counter, the epoch
  fraction (a division by \<open>steps_in_epoch\<close>), the callback, and the logging call
  that reads the local \<open>grad_norm\<close>, which only the clipping binds.\<close>

definition finish_phase ::
  "('m, 'o, 'b, 's, 'd) collaborators \<Rightarrow> int \<Rightarrow> int \<Rightarrow> int \<Rightarrow> ('m, 'o, 's, 'd) trainer
    \<Rightarrow> ('m, 'o, 's, 'd) trainer outcome" where
  "finish_phase env steps_in_epoch ep step s =
    (let s1 = record_call ZeroGrad (s\<lparr>model := zero_grad env (model s)\<rparr>);
         s2 = s1\<lparr>global_step := global_step s1 + 1\<rparr>
     in if steps_in_epoch = 0 then Raised ZeroDivisionError s2
        else
          let s3 = s2\<lparr>epoch := real_of_int ep + real_of_int (step + 1 + 0) / real_of_int steps_in_epoch\<rparr>;
              s4 = s3\<lparr>control := on_step_end env (global_step s3) (control s3)\<rparr>
          in if \<not> grad_norm_bound s4 then Raised (UnboundLocalError ''grad_norm'') s4
             else Completed (s4\<lparr>control := maybe_log_save_evaluate env (global_step s4) (control s4)\<rparr>))"

section \<open>One batch of either stream\<close>

text \<open>Lines 267-287 and 349-373, common to both loops: the batch counter, the
  \<open>step %\<close> test (which raises on a zero accumulation count), the forward and
  backward pass, and DeepSpeed's own step.\<close>

definition batch_prefix ::
  "('m, 'o, 'b, 's, 'd) collaborators \<Rightarrow> config \<Rightarrow> int \<Rightarrow> 'b \<Rightarrow> ('m, 'o, 's, 'd) trainer
    \<Rightarrow> ('m, 'o, 's, 'd) trainer outcome" where
  "batch_prefix env cfg step inputs s =
    (let s1 = s\<lparr>total_batched_samples := total_batched_samples s + 1, step_var := Some step\<rparr>
     in if gradient_accumulation_steps cfg = 0 then Raised ZeroDivisionError s1
        else
          let s2 = (if step mod gradient_accumulation_steps cfg = 0
                    then s1\<lparr>control := on_step_begin env (global_step s1) (control s1)\<rparr>
                    else s1);
              s3 = record_call TrainingStep (s2\<lparr>model := training_step env (model s2) inputs\<rparr>)
          in if deepspeed cfg
             then (let (m, opt) = deepspeed_step env (model s3) (optimizer s3)
                   in Completed (record_call DeepspeedStep (s3\<lparr>model := m, optimizer := opt\<rparr>)))
             else Completed s3)"

text \<open>Lines 289-293 and 375-379: the batch closes a gradient-accumulation window.\<close>

definition at_boundary :: "config \<Rightarrow> int \<Rightarrow> int \<Rightarrow> ('m, 'o, 's, 'd) trainer \<Rightarrow> bool" where
  "at_boundary cfg steps_in_epoch step s =
    (total_batched_samples s mod gradient_accumulation_steps cfg = 0
     \<or> (steps_in_epoch \<le> gradient_accumulation_steps cfg \<and> step + 1 = steps_in_epoch))"

definition schedule_phase ::
  "('m, 'o, 'b, 's, 'd) collaborators \<Rightarrow> config \<Rightarrow> ('m, 'o, 's, 'd) trainer
    \<Rightarrow> (real \<Rightarrow> ('m, 'o, 's, 'd) trainer \<Rightarrow> ('m, 'o, 's, 'd) trainer outcome)
    \<Rightarrow> ('m, 'o, 's, 'd) trainer outcome" where
  "schedule_phase env cfg s k =
    (let s1 = record_call (ScheduleSparsityRatio (global_step s) (max_steps s)) s
     in case scheduled_ratio env cfg s of
          Inl e \<Rightarrow> Raised e s1
        | Inr r \<Rightarrow> k r s1)"

text \<open>Lines 294-340: the boundary of the forget stream. The optimizer and the
  learning-rate scheduler calls are commented out there.\<close>

definition forget_boundary ::
  "('m, 'o, 'b, 's, 'd) collaborators \<Rightarrow> config \<Rightarrow> int \<Rightarrow> int \<Rightarrow> int \<Rightarrow> ('m, 'o, 's, 'd) trainer
    \<Rightarrow> ('m, 'o, 's, 'd) trainer outcome" where
  "forget_boundary env cfg steps_in_epoch ep step s =
    and_then (clip_phase env cfg s) (\<lambda>s1.
    and_then (forget_sensitivity_phase env cfg s1) (\<lambda>s2.
    schedule_phase env cfg s2 (\<lambda>r s3.
    finish_phase env steps_in_epoch ep step s3)))"

text \<open>Lines 380-439: the boundary of the retain stream.\<close>

definition retain_boundary ::
  "('m, 'o, 'b, 's, 'd) collaborators \<Rightarrow> config \<Rightarrow> int \<Rightarrow> int \<Rightarrow> int \<Rightarrow> ('m, 'o, 's, 'd) trainer
    \<Rightarrow> ('m, 'o, 's, 'd) trainer outcome" where
  "retain_boundary env cfg steps_in_epoch ep step s =
    and_then (clip_phase env cfg s) (\<lambda>s1.
    and_then (retain_sensitivity_phase env cfg s1) (\<lambda>s2.
    schedule_phase env cfg s2 (\<lambda>r s3.
    and_then (prune_phase env cfg r s3) (\<lambda>s4.
    and_then (optimizer_phase env cfg s4) (\<lambda>s5.
    finish_phase env steps_in_epoch ep step s5)))))"

definition forget_batch ::
  "('m, 'o, 'b, 's, 'd) collaborators \<Rightarrow> config \<Rightarrow> int \<Rightarrow> int \<Rightarrow> int \<Rightarrow> 'b
    \<Rightarrow> ('m, 'o, 's, 'd) trainer \<Rightarrow> ('m, 'o, 's, 'd) trainer outcome" where
  "forget_batch env cfg steps_in_epoch ep step inputs s =
    and_then (batch_prefix env cfg step inputs s) (\<lambda>s1.
      if at_boundary cfg steps_in_epoch step s1
      then forget_boundary env cfg steps_in_epoch ep step s1
      else Completed (s1\<lparr>control := on_substep_end env (global_step s1) (control s1)\<rparr>))"

definition retain_batch ::
  "('m, 'o, 'b, 's, 'd) collaborators \<Rightarrow> config \<Rightarrow> int \<Rightarrow> int \<Rightarrow> int \<Rightarrow> 'b
    \<Rightarrow> ('m, 'o, 's, 'd) trainer \<Rightarrow> ('m, 'o, 's, 'd) trainer outcome" where
  "retain_batch env cfg steps_in_epoch ep step inputs s =
    and_then (batch_prefix env cfg step inputs s) (\<lambda>s1.
      if at_boundary cfg steps_in_epoch step s1
      then retain_boundary env cfg steps_in_epoch ep step s1
      else Completed (s1\<lparr>control := on_substep_end env (global_step s1) (control s1)\<rparr>))"

section \<open>The loops\<close>

definition stop_requested :: "('m, 'o, 's, 'd) trainer \<Rightarrow> bool" where
  "stop_requested s = (should_epoch_stop (control s) \<or> should_training_stop (control s))"

text \<open>Lines 266-345: \<open>for step, inputs in enumerate(forget_dataloader)\<close>, with its
  \<open>break\<close>.\<close>

fun forget_loop ::
  "('m, 'o, 'b, 's, 'd) collaborators \<Rightarrow> config \<Rightarrow> int \<Rightarrow> int \<Rightarrow> int \<Rightarrow> 'b list
    \<Rightarrow> ('m, 'o, 's, 'd) trainer \<Rightarrow> ('m, 'o, 's, 'd) trainer outcome" where
  "forget_loop env cfg steps_in_epoch ep step [] s = Completed s"
| "forget_loop env cfg steps_in_epoch ep step (inputs # rest) s =
    (case forget_batch env cfg steps_in_epoch ep step inputs s of
       Raised e s1 \<Rightarrow> Raised e s1
     | Completed s1 \<Rightarrow>
         if stop_requested s1 then Completed s1
         else forget_loop env cfg steps_in_epoch ep (step + 1) rest s1)"

text \<open>Lines 348-444: \<open>for step, inputs in enumerate(train_dataloader)\<close>.\<close>

fun retain_loop ::
  "('m, 'o, 'b, 's, 'd) collaborators \<Rightarrow> config \<Rightarrow> int \<Rightarrow> int \<Rightarrow> int \<Rightarrow> 'b list
    \<Rightarrow> ('m, 'o, 's, 'd) trainer \<Rightarrow> ('m, 'o, 's, 'd) trainer outcome" where
  "retain_loop env cfg steps_in_epoch ep step [] s = Completed s"
| "retain_loop env cfg steps_in_epoch ep step (inputs # rest) s =
    (case retain_batch env cfg steps_in_epoch ep step inputs s of
       Raised e s1 \<Rightarrow> Raised e s1
     | Completed s1 \<Rightarrow>
         if stop_requested s1 then Completed s1
         else retain_loop env cfg steps_in_epoch ep (step + 1) rest s1)"

text \<open>Lines 234-458: one epoch. The forget batches are \<open>None\<close> when there is no
  forget dataset. \<open>steps_in_epoch\<close> is the length of the retain dataloader in both
  loops (without a length, \<open>args.max_steps\<close>, which is then \<open>state.max_steps\<close>, times
  the accumulation count). The test \<open>step < 0\<close> reads the loop variable, unbound if
  no loop ever ran.\<close>

definition train_epoch ::
  "('m, 'o, 'b, 's, 'd) collaborators \<Rightarrow> config \<Rightarrow> int \<Rightarrow> 'b list option \<Rightarrow> 'b list
    \<Rightarrow> ('m, 'o, 's, 'd) trainer \<Rightarrow> ('m, 'o, 's, 'd) trainer outcome" where
  "train_epoch env cfg ep forget_batches retain_batches s =
    (let steps_in_epoch = (if has_len cfg then int (length retain_batches)
                           else max_steps s * gradient_accumulation_steps cfg);
         s1 = s\<lparr>control := on_epoch_begin env (global_step s) (control s)\<rparr>
     in and_then (case forget_batches of
                    None \<Rightarrow> Completed s1
                  | Some fb \<Rightarrow> forget_loop env cfg steps_in_epoch ep 0 fb s1) (\<lambda>s2.
        and_then (retain_loop env cfg steps_in_epoch ep 0 retain_batches s2) (\<lambda>s3.
          case step_var s3 of
            None \<Rightarrow> Raised (UnboundLocalError ''step'') s3
          | Some step \<Rightarrow>
              let s4 = (if step < 0
                        then s3\<lparr>control := (control s3)\<lparr>should_training_stop := True\<rparr>\<rparr>
                        else s3);
                  s5 = s4\<lparr>control := on_epoch_end env (global_step s4) (control s4)\<rparr>
              in Completed (s5\<lparr>control := maybe_log_save_evaluate env (global_step s5) (control s5)\<rparr>))))"

text \<open>Lines 234-458: \<open>for epoch in range(epochs_trained, num_train_epochs)\<close>; the
  list holds the batches each epoch's dataloaders yield.\<close>

fun epoch_loop ::
  "('m, 'o, 'b, 's, 'd) collaborators \<Rightarrow> config \<Rightarrow> int \<Rightarrow> ('b list option \<times> 'b list) list
    \<Rightarrow> ('m, 'o, 's, 'd) trainer \<Rightarrow> ('m, 'o, 's, 'd) trainer outcome" where
  "epoch_loop env cfg ep [] s = Completed s"
| "epoch_loop env cfg ep ((fb, rb) # rest) s =
    (case train_epoch env cfg ep fb rb s of
       Raised e s1 \<Rightarrow> Raised e s1
     | Completed s1 \<Rightarrow>
         if should_training_stop (control s1) then Completed s1
         else epoch_loop env cfg (ep + 1) rest s1)"

definition inner_training_loop ::
  "('m, 'o, 'b, 's, 'd) collaborators \<Rightarrow> config \<Rightarrow> int \<Rightarrow> ('b list option \<times> 'b list) list
    \<Rightarrow> ('m, 'o, 's, 'd) trainer \<Rightarrow> ('m, 'o, 's, 'd) trainer outcome" where
  "inner_training_loop env cfg epochs_trained batches s0 =
    epoch_loop env cfg epochs_trained batches (start_training env cfg s0)"

section \<open>The engine's missing parts, modelled from the specification\<close>

text \<open>
  \<open>loraprune/utils.py\<close> and \<open>loraprune/utils_ul.py\<close> are not among the source files.
  Where a property is about what they compute, they are modelled from the
  specification's sections 3 and 4. Sensitivity values and dual scores are
  tensors, here lists of reals with one entry per element of the group.
\<close>

subsection \<open>RatioScheduler\<close>

datatype interpolation = Linear | Smoothstep

text \<open>Modelled from the spec: the rising segment of \<open>utils.schedule_sparsity_ratio\<close>,
  which is absent; section 4.2 allows "smoothstep or linear interpolation over
  the interval".\<close>

fun rise :: "interpolation \<Rightarrow> real \<Rightarrow> real" where
  "rise Linear x = x"
| "rise Smoothstep x = x * x * (3 - 2 * x)"

text \<open>Modelled from the spec: \<open>utils.schedule_sparsity_ratio\<close> is absent. Section 4.2:
  over \<open>p = step / max_steps\<close>, \<open>init_ratio\<close> while \<open>p < warmup_frac\<close>, rising on
  \<open>warmup_frac \<le> p < 1 - cooldown_frac\<close>, \<open>final_ratio\<close> from \<open>1 - cooldown_frac\<close> on;
  when \<open>warmup_frac + cooldown_frac \<ge> 1\<close>, \<open>p \<ge> warmup_frac\<close> returns \<open>final_ratio\<close> at
  once; \<open>InvalidSchedule\<close> if \<open>max_steps \<le> 0\<close>.\<close>

definition ratio_at ::
  "interpolation \<Rightarrow> int \<Rightarrow> int \<Rightarrow> real \<Rightarrow> real \<Rightarrow> real \<Rightarrow> real \<Rightarrow> error + real" where
  "ratio_at i step total_steps warmup_frac cooldown_frac init final =
    (if total_steps \<le> 0 then Inl InvalidSchedule
     else
       let p = real_of_int step / real_of_int total_steps
       in if p < warmup_frac then Inr init
          else if 1 \<le> warmup_frac + cooldown_frac then Inr final
          else if 1 - cooldown_frac \<le> p then Inr final
          else Inr (init + (final - init)
                 * rise i ((p - warmup_frac) / (1 - cooldown_frac - warmup_frac))))"

subsection \<open>SensitivityTracker\<close>

text \<open>What the tracker reads from the model for a parameter group.\<close>

record 'm readings =
  groups :: "'m \<Rightarrow> (name \<times> nat) list"
  lora_contribution :: "'m \<Rightarrow> name \<Rightarrow> real list"
  weights :: "'m \<Rightarrow> name \<Rightarrow> real list"
  gradients :: "'m \<Rightarrow> name \<Rightarrow> real list option"

text \<open>Modelled from the spec: \<open>utils.init_sensitivity_dict\<close> is absent. Section 3:
  a SensitivityDict is created "zero-initialized over all ParameterGroups", and
  the two dicts are "two independent instances": each call allocates an object.\<close>

definition spec_init_sensitivity_dict ::
  "'m readings \<Rightarrow> 'm \<Rightarrow> real list store \<Rightarrow> addr \<times> real list store" where
  "spec_init_sensitivity_dict rd m h =
    (next_free h,
     h\<lparr>cells := (cells h)(next_free h := map (\<lambda>(g, k). (g, replicate k 0)) (groups rd m)),
       next_free := Suc (next_free h)\<rparr>)"

text \<open>Modelled from the spec: the metrics of \<open>utils.update_sensitivity_dict\<close>, which is
  absent. Section 4.1: \<open>lora\<close> needs no gradient; \<open>grad\<close> is "the product of weight
  magnitude and gradient magnitude" and fails with \<open>MissingGradient\<close> when a
  tracked group has no gradient; any other name fails with \<open>UnknownMetric\<close>.\<close>

definition importance :: "'m readings \<Rightarrow> string \<Rightarrow> 'm \<Rightarrow> name \<Rightarrow> error + real list" where
  "importance rd metric m g =
    (if metric = ''lora'' then Inr (lora_contribution rd m g)
     else if metric = ''grad'' then
       (case gradients rd m g of
          None \<Rightarrow> Inl MissingGradient
        | Some ds \<Rightarrow> Inr (map2 (\<lambda>w d. \<bar>w\<bar> * \<bar>d\<bar>) (weights rd m g) ds))
     else Inl UnknownMetric)"

text \<open>Modelled from the spec: the accumulation of \<open>utils.update_sensitivity_dict\<close>.
  Section 4.1: a cumulative sum per group that "only adds non-negative
  contributions".\<close>

fun update_entries ::
  "'m readings \<Rightarrow> string \<Rightarrow> 'm \<Rightarrow> real list dict \<Rightarrow> error + real list dict" where
  "update_entries rd metric m [] = Inr []"
| "update_entries rd metric m ((g, v) # rest) =
    (case importance rd metric m g of
       Inl e \<Rightarrow> Inl e
     | Inr c \<Rightarrow>
        (case update_entries rd metric m rest of
           Inl e \<Rightarrow> Inl e
         | Inr rest' \<Rightarrow> Inr ((g, map2 (\<lambda>x y. x + \<bar>y\<bar>) v c) # rest')))"

text \<open>Modelled from the spec: \<open>utils.update_sensitivity_dict\<close> is absent. Section 4.1:
  "Side effects: none beyond returning/mutating the dict": the dict it is given
  is updated in place and returned.\<close>

definition spec_update_sensitivity_dict ::
  "'m readings \<Rightarrow> 'm \<Rightarrow> addr \<Rightarrow> string \<Rightarrow> real list store \<Rightarrow> error + addr \<times> real list store" where
  "spec_update_sensitivity_dict rd m a metric h =
    (if metric \<noteq> ''lora'' \<and> metric \<noteq> ''grad'' then Inl UnknownMetric
     else case update_entries rd metric m (cells h a) of
            Inl e \<Rightarrow> Inl e
          | Inr d \<Rightarrow> Inr (a, h\<lparr>cells := (cells h)(a := d)\<rparr>))"

text \<open>The collaborators with this tracker in place of whatever tracker they had, and
  the dict a fresh tracker holds.\<close>

definition with_spec_tracker ::
  "'m readings \<Rightarrow> ('m, 'o, 'b, real list, 'd) collaborators
    \<Rightarrow> ('m, 'o, 'b, real list, 'd) collaborators" where
  "with_spec_tracker rd env =
    env\<lparr>init_sensitivity_dict := spec_init_sensitivity_dict rd,
        update_sensitivity_dict := spec_update_sensitivity_dict rd\<rparr>"

definition zero_dict :: "'m readings \<Rightarrow> 'm \<Rightarrow> real list dict" where
  "zero_dict rd m = map (\<lambda>(g, k). (g, replicate k 0)) (groups rd m)"

subsection \<open>DualSensitivityCombiner\<close>

text \<open>Modelled from the spec: \<open>utils_ul.compute_dual_sensitivity\<close> is absent. Section
  4.3 gives \<open>forget_value / (retain_value + eps)\<close> as the form, per element.\<close>

definition spec_compute_dual_sensitivity :: "real \<Rightarrow> real list \<Rightarrow> real list \<Rightarrow> real list" where
  "spec_compute_dual_sensitivity eps fs rs = map2 (\<lambda>f r. f / (r + eps)) fs rs"

subsection \<open>PruningApplicator\<close>

record element =
  weight :: real
  pruned :: bool

type_synonym network = "element list dict"

definition element_at :: "network \<Rightarrow> name \<Rightarrow> nat \<Rightarrow> element option" where
  "element_at net g i =
    (case map_of net g of
       None \<Rightarrow> None
     | Some es \<Rightarrow> if i < length es then Some (es ! i) else None)"

definition score_at :: "real list dict \<Rightarrow> name \<Rightarrow> nat \<Rightarrow> real option" where
  "score_at dual g i =
    (case map_of dual g of
       None \<Rightarrow> None
     | Some xs \<Rightarrow> if i < length xs then Some (xs ! i) else None)"

text \<open>Modelled from the spec: the candidates of \<open>utils_ul.unlearning_prune\<close>, which is
  absent. Section 4.4: "all currently-unpruned elements across all
  ParameterGroups", each with its dual score.\<close>

fun group_candidates ::
  "name \<Rightarrow> nat \<Rightarrow> element list \<Rightarrow> real list \<Rightarrow> ((name \<times> nat) \<times> real) list" where
  "group_candidates g i (e # es) (x # xs) =
    (if pruned e then group_candidates g (Suc i) es xs
     else ((g, i), x) # group_candidates g (Suc i) es xs)"
| "group_candidates g i es xs = []"

fun candidates :: "network \<Rightarrow> real list dict \<Rightarrow> ((name \<times> nat) \<times> real) list" where
  "candidates [] dual = []"
| "candidates ((g, es) # net) dual =
    (case map_of dual g of
       None \<Rightarrow> candidates net dual
     | Some xs \<Rightarrow> group_candidates g 0 es xs @ candidates net dual)"

text \<open>Modelled from the spec: the \<open>InconsistentShapes\<close> check of
  \<open>utils_ul.unlearning_prune\<close>: the keys of the scores are the model's groups, and
  each group has one score per element.\<close>

definition shapes_match :: "network \<Rightarrow> real list dict \<Rightarrow> bool" where
  "shapes_match net dual =
    (set (map fst dual) = set (map fst net)
     \<and> list_all (\<lambda>(g, es). case map_of dual g of
                              None \<Rightarrow> False
                            | Some xs \<Rightarrow> length xs = length es) net)"

definition count_elements :: "network \<Rightarrow> nat" where
  "count_elements net = sum_list (map (\<lambda>(g, es). length es) net)"

definition count_pruned :: "network \<Rightarrow> nat" where
  "count_pruned net = sum_list (map (\<lambda>(g, es). length (filter pruned es)) net)"

text \<open>Modelled from the spec: how many elements \<open>utils_ul.unlearning_prune\<close> needs "to
  bring global sparsity from \<open>current_ratio\<close> up to \<open>target_ratio\<close>".\<close>

definition needed :: "network \<Rightarrow> real \<Rightarrow> nat" where
  "needed net target_ratio =
    nat \<lfloor>target_ratio * real (count_elements net)\<rfloor> - count_pruned net"

text \<open>Modelled from the spec: the selection of \<open>utils_ul.unlearning_prune\<close>. Section
  4.4: rank "by dual score descending; prune the top elements needed", and
  "elements failing the threshold are skipped even if their rank would
  otherwise qualify".\<close>

definition selected :: "network \<Rightarrow> real list dict \<Rightarrow> real \<Rightarrow> real \<Rightarrow> (name \<times> nat) list" where
  "selected net dual target_ratio threshold =
    map fst (filter (\<lambda>c. threshold < snd c)
      (take (needed net target_ratio) (sort_key (\<lambda>c. - snd c) (candidates net dual))))"

text \<open>Modelled from the spec: the application of \<open>utils_ul.unlearning_prune\<close>:
  "permanently zeroing selected elements" and marking them pruned.\<close>

fun zero_out :: "name \<Rightarrow> (name \<times> nat) list \<Rightarrow> nat \<Rightarrow> element list \<Rightarrow> element list" where
  "zero_out g sel i [] = []"
| "zero_out g sel i (e # es) =
    (if (g, i) \<in> set sel then e\<lparr>weight := 0, pruned := True\<rparr> else e)
      # zero_out g sel (Suc i) es"

text \<open>Modelled from the spec: \<open>utils_ul.unlearning_prune\<close> is absent; section 4.4.\<close>

definition spec_unlearning_prune ::
  "network \<Rightarrow> real list dict \<Rightarrow> real \<Rightarrow> real \<Rightarrow> error + network" where
  "spec_unlearning_prune net dual target_ratio threshold =
    (if \<not> shapes_match net dual then Inl InconsistentShapes
     else Inr (map (\<lambda>(g, es). (g, zero_out g (selected net dual target_ratio threshold) 0 es)) net))"

section \<open>A concrete run\<close>

text \<open>The constructor's defaults (lines 44-50), with the \<open>transformers\<close> defaults
  \<open>max_grad_norm = 1.0\<close> and one accumulation step, on a network of two groups.\<close>

definition default_config :: config where
  "default_config =
    \<lparr>ratio = 1 / 2, init_ratio = 0, warmup_iters = 1 / 10, cooldown_iters = 1 / 10,
     prune_freq = 10, prune_metric = ''lora'', unlearning_threshold = 1 / 10,
     deepspeed = False, max_grad_norm = Some 1, gradient_accumulation_steps = 1,
     has_len = True\<rparr>"

definition group_weights :: "network \<Rightarrow> name \<Rightarrow> real list" where
  "group_weights net g = (case map_of net g of None \<Rightarrow> [] | Some es \<Rightarrow> map weight es)"

definition network_readings :: "network readings" where
  "network_readings =
    \<lparr>groups = map (\<lambda>(g, es). (g, length es)),
     lora_contribution = group_weights,
     weights = group_weights,
     gradients = (\<lambda>net g. None)\<rparr>"

definition spec_collaborators :: "(network, nat, unit, real list, real list) collaborators" where
  "spec_collaborators =
    \<lparr>zero_grad = (\<lambda>m. m),
     unfreeze = (\<lambda>m. m),
     init_sensitivity_dict = spec_init_sensitivity_dict network_readings,
     update_sensitivity_dict = spec_update_sensitivity_dict network_readings,
     schedule_sparsity_ratio = ratio_at Linear,
     compute_dual_sensitivity = spec_compute_dual_sensitivity (1 / 100),
     unlearning_prune = spec_unlearning_prune,
     training_step = (\<lambda>m b. m),
     deepspeed_step = (\<lambda>m opt. (m, opt)),
     clip_grad_norm = (\<lambda>m g. m),
     optimizer_step = (\<lambda>m opt. (m, Suc opt)),
     lr_scheduler_step = (\<lambda>opt. opt),
     on_epoch_begin = (\<lambda>g c. c),
     on_step_begin = (\<lambda>g c. c),
     on_step_end = (\<lambda>g c. c),
     on_substep_end = (\<lambda>g c. c),
     on_epoch_end = (\<lambda>g c. c),
     maybe_log_save_evaluate = (\<lambda>g c. c)\<rparr>"

definition two_groups :: network where
  "two_groups = [(''A'', [\<lparr>weight = 1, pruned = False\<rparr>]), (''B'', [\<lparr>weight = 2, pruned = False\<rparr>])]"

definition fresh_trainer :: "int \<Rightarrow> int \<Rightarrow> (network, nat, real list, real list) trainer" where
  "fresh_trainer step total_steps =
    \<lparr>model = two_groups, optimizer = 0,
     heap = \<lparr>cells = (\<lambda>a. []), next_free = 0\<rparr>,
     forget_sensitivity_dict = 0, retain_sensitivity_dict = 0,
     global_step = step, max_steps = total_steps, epoch = 0,
     total_batched_samples = 0, step_var = None, grad_norm_bound = False,
     control = \<lparr>should_epoch_stop = False, should_training_stop = False\<rparr>,
     trace = []\<rparr>"

definition example_start :: "int \<Rightarrow> (network, nat, real list, real list) trainer" where
  "example_start step = start_training spec_collaborators default_config (fresh_trainer step 100)"

text \<open>The state after one batch of the forget stream, and after one of the retain
  stream, each as the only batch of its epoch.\<close>

definition example_after_forget :: "int \<Rightarrow> (network, nat, real list, real list) trainer" where
  "example_after_forget step =
    state_of (forget_batch spec_collaborators default_config 1 0 0 () (example_start step))"

definition example_after_retain :: "int \<Rightarrow> (network, nat, real list, real list) trainer" where
  "example_after_retain step =
    state_of (retain_batch spec_collaborators default_config 1 0 0 () (example_start step))"

text \<open>The same run with DeepSpeed in use, and with the \<open>grad\<close> metric.\<close>

definition deepspeed_config :: config where
  "deepspeed_config = default_config\<lparr>deepspeed := True\<rparr>"

definition deepspeed_start :: "(network, nat, real list, real list) trainer" where
  "deepspeed_start = start_training spec_collaborators deepspeed_config (fresh_trainer 0 100)"

definition grad_config :: config where
  "grad_config = default_config\<lparr>prune_metric := ''grad''\<rparr>"

section \<open>Observing a run\<close>

text \<open>The calls recorded between two states of one run, newest first.\<close>

definition calls_during :: "('m, 'o, 's, 'd) trainer \<Rightarrow> ('m, 'o, 's, 'd) trainer \<Rightarrow> 'd event list" where
  "calls_during s s' = take (length (trace s') - length (trace s)) (trace s')"

text \<open>The batch closes an accumulation window: the test of lines 289-293 and
  375-379, which the code evaluates after counting the batch.\<close>

definition closes_window :: "config \<Rightarrow> int \<Rightarrow> int \<Rightarrow> ('m, 'o, 's, 'd) trainer \<Rightarrow> bool" where
  "closes_window cfg steps_in_epoch step s =
    at_boundary cfg steps_in_epoch step (s\<lparr>total_batched_samples := total_batched_samples s + 1\<rparr>)"

text \<open>The calls the forget stream can make (lines 266-345).\<close>

fun forget_stream_call :: "'d event \<Rightarrow> bool" where
  "forget_stream_call (UnlearningPrune d r t) = False"
| "forget_stream_call OptimizerStep = False"
| "forget_stream_call LrSchedulerStep = False"
| "forget_stream_call Unfreeze = False"
| "forget_stream_call (InitSensitivityDict a) = False"
| "forget_stream_call e = True"


text \<open>The calls the epochs can make (lines 234-458).\<close>

fun training_call :: "'d event \<Rightarrow> bool" where
  "training_call Unfreeze = False"
| "training_call (InitSensitivityDict a) = False"
| "training_call e = True"

definition any_call :: "'d event \<Rightarrow> bool" where
  "any_call e = True"

section \<open>Specifications of the phases\<close>

text \<open>A piece of the loop started in a state satisfying \<open>P\<close> ends in a state
  satisfying \<open>Q\<close>, or raises in a state satisfying \<open>E\<close>.\<close>

definition triple ::
  "('a \<Rightarrow> bool) \<Rightarrow> ('a \<Rightarrow> 'a outcome) \<Rightarrow> ('a \<Rightarrow> bool) \<Rightarrow> ('a \<Rightarrow> bool) \<Rightarrow> bool" where
  "triple P f Q E = (\<forall>s. P s \<longrightarrow> (case f s of Completed t \<Rightarrow> Q t | Raised e t \<Rightarrow> E t))"

text \<open>All calls recorded since \<open>s0\<close> satisfy \<open>A\<close>.\<close>

definition since ::
  "('m, 'o, 's, 'd) trainer \<Rightarrow> ('d event \<Rightarrow> bool) \<Rightarrow> ('m, 'o, 's, 'd) trainer \<Rightarrow> bool" where
  "since s0 A t = (\<exists>evs. trace t = evs @ trace s0 \<and> list_all A evs)"

definition dicts_ok ::
  "('s store \<Rightarrow> addr \<Rightarrow> addr \<Rightarrow> bool) \<Rightarrow> ('m, 'o, 's, 'd) trainer \<Rightarrow> bool" where
  "dicts_ok K t = K (heap t) (forget_sensitivity_dict t) (retain_sensitivity_dict t)"

definition any_dicts :: "'s store \<Rightarrow> addr \<Rightarrow> addr \<Rightarrow> bool" where
  "any_dicts h f r = True"

text \<open>Within one batch: the step counter is still the one the batch started with,
  or the batch has counted its step.\<close>

definition before_step ::
  "('m, 'o, 's, 'd) trainer \<Rightarrow> ('d event \<Rightarrow> bool) \<Rightarrow> ('s store \<Rightarrow> addr \<Rightarrow> addr \<Rightarrow> bool)
    \<Rightarrow> ('m, 'o, 's, 'd) trainer \<Rightarrow> bool" where
  "before_step s0 A K t =
    (since s0 A t \<and> dicts_ok K t \<and> max_steps t = max_steps s0 \<and> global_step t = global_step s0)"

definition after_step ::
  "('m, 'o, 's, 'd) trainer \<Rightarrow> ('d event \<Rightarrow> bool) \<Rightarrow> ('s store \<Rightarrow> addr \<Rightarrow> addr \<Rightarrow> bool)
    \<Rightarrow> ('m, 'o, 's, 'd) trainer \<Rightarrow> bool" where
  "after_step s0 A K t =
    (since s0 A t \<and> dicts_ok K t \<and> max_steps t = max_steps s0 \<and> global_step t = global_step s0 + 1)"

definition within_step ::
  "('m, 'o, 's, 'd) trainer \<Rightarrow> ('d event \<Rightarrow> bool) \<Rightarrow> ('s store \<Rightarrow> addr \<Rightarrow> addr \<Rightarrow> bool)
    \<Rightarrow> ('m, 'o, 's, 'd) trainer \<Rightarrow> bool" where
  "within_step s0 A K t = (before_step s0 A K t \<or> after_step s0 A K t)"

text \<open>The conditions on \<open>A\<close> and \<open>K\<close> under which a batch of either stream keeps
  them.\<close>

definition forget_calls :: "('m, 'o, 's, 'd) trainer \<Rightarrow> ('d event \<Rightarrow> bool) \<Rightarrow> bool" where
  "forget_calls s0 A =
    (A TrainingStep \<and> A DeepspeedStep \<and> A ClipGradNorm \<and> A ZeroGrad
     \<and> (\<forall>a. A (UpdateSensitivityDict a))
     \<and> A (ScheduleSparsityRatio (global_step s0) (max_steps s0)))"

definition retain_calls ::
  "('m, 'o, 'b, 's, 'd) collaborators \<Rightarrow> config \<Rightarrow> ('m, 'o, 's, 'd) trainer \<Rightarrow> ('d event \<Rightarrow> bool) \<Rightarrow> bool" where
  "retain_calls env cfg s0 A =
    (forget_calls s0 A \<and> A OptimizerStep \<and> A LrSchedulerStep
     \<and> (\<forall>d r. scheduled_ratio env cfg s0 = Inr r \<longrightarrow> prune_gate cfg (global_step s0) r = Inr True
          \<longrightarrow> A (UnlearningPrune d r (unlearning_threshold cfg))))"

definition batch_calls :: "('d event \<Rightarrow> bool) \<Rightarrow> bool" where
  "batch_calls A =
    (A TrainingStep \<and> A DeepspeedStep \<and> A ClipGradNorm \<and> A ZeroGrad
     \<and> (\<forall>a. A (UpdateSensitivityDict a)) \<and> (\<forall>g m. A (ScheduleSparsityRatio g m)))"

definition forget_dicts ::
  "('m, 'o, 'b, 's, 'd) collaborators \<Rightarrow> config \<Rightarrow> ('s store \<Rightarrow> addr \<Rightarrow> addr \<Rightarrow> bool) \<Rightarrow> bool" where
  "forget_dicts env cfg K =
    (\<forall>m h f r a h'. K h f r \<longrightarrow>
       update_sensitivity_dict env m f (prune_metric cfg) h = Inr (a, h') \<longrightarrow> K h' a r)"

definition retain_dicts ::
  "('m, 'o, 'b, 's, 'd) collaborators \<Rightarrow> config \<Rightarrow> ('s store \<Rightarrow> addr \<Rightarrow> addr \<Rightarrow> bool) \<Rightarrow> bool" where
  "retain_dicts env cfg K =
    (\<forall>m h f r a h'. K h f r \<longrightarrow>
       update_sensitivity_dict env m r (prune_metric cfg) h = Inr (a, h') \<longrightarrow> K h' f a)"

text \<open>The call \<open>e\<close> has been recorded since \<open>s0\<close>.\<close>

definition called ::
  "('m, 'o, 's, 'd) trainer \<Rightarrow> 'd event \<Rightarrow> ('m, 'o, 's, 'd) trainer \<Rightarrow> bool" where
  "called s0 e t = (\<exists>evs. trace t = evs @ trace s0 \<and> e \<in> set evs)"



text \<open>Both dict variables point where they did, and the dict at \<open>a\<close> holds \<open>d\<close>.\<close>

definition dicts_kept ::
  "addr \<Rightarrow> addr \<Rightarrow> addr \<Rightarrow> 's dict \<Rightarrow> 's store \<Rightarrow> addr \<Rightarrow> addr \<Rightarrow> bool" where
  "dicts_kept f0 r0 a d h f r = (f = f0 \<and> r = r0 \<and> cells h a = d)"

section \<open>Proof rules for the loop\<close>

lemma tripleI:
  "(\<And>s. P s \<Longrightarrow> (case f s of Completed t \<Rightarrow> Q t | Raised e t \<Rightarrow> E t)) \<Longrightarrow> triple P f Q E"
  by (simp add: triple_def)

lemma triple_completed: "triple P f Q E \<Longrightarrow> P s \<Longrightarrow> f s = Completed t \<Longrightarrow> Q t"
  by (auto simp: triple_def split: outcome.splits)

lemma triple_raised: "triple P f Q E \<Longrightarrow> P s \<Longrightarrow> f s = Raised e t \<Longrightarrow> E t"
  by (auto simp: triple_def split: outcome.splits)

lemma triple_state_of:
  assumes "triple P f Q Q" and "P s"
  shows "Q (state_of (f s))"
proof (cases "f s")
  case (Completed t)
  with assms show ?thesis by (simp add: triple_completed)
next
  case (Raised e t)
  with assms show ?thesis by (simp add: triple_raised)
qed

lemma triple_and_then:
  assumes "triple P f Q E" and "triple Q g R E"
  shows "triple P (\<lambda>s. and_then (f s) g) R E"
proof (rule tripleI)
  fix s assume p: "P s"
  show "case and_then (f s) g of Completed t \<Rightarrow> R t | Raised e t \<Rightarrow> E t"
  proof (cases "f s")
    case (Completed t)
    with assms(1) p have "Q t" by (rule_tac triple_completed)
    with assms(2) have "case g t of Completed u \<Rightarrow> R u | Raised e u \<Rightarrow> E u"
      by (simp add: triple_def)
    with Completed show ?thesis by simp
  next
    case (Raised e t)
    with assms(1) p have "E t" by (rule_tac triple_raised)
    with Raised show ?thesis by simp
  qed
qed

lemma triple_conseq:
  assumes "triple P f Q E" and "\<And>s. P' s \<Longrightarrow> P s" and "\<And>s. Q s \<Longrightarrow> Q' s" and "\<And>s. E s \<Longrightarrow> E' s"
  shows "triple P' f Q' E'"
  using assms unfolding triple_def by (simp split: outcome.splits) blast

lemma triple_if:
  assumes "triple (\<lambda>s. P s \<and> b s) f Q E" and "triple (\<lambda>s. P s \<and> \<not> b s) g Q E"
  shows "triple P (\<lambda>s. if b s then f s else g s) Q E"
  using assms unfolding triple_def by simp

lemma since_refl: "since s A s"
  by (simp add: since_def)

lemma since_calls: "since s A t \<Longrightarrow> e \<in> set (calls_during s t) \<Longrightarrow> A e"
  by (auto simp: since_def calls_during_def list_all_iff)

lemma since_trace: "since s A t \<Longrightarrow> trace t = calls_during s t @ trace s"
  by (auto simp: since_def calls_during_def)

lemma since_mono: "since s A t \<Longrightarrow> (\<And>e. A e \<Longrightarrow> B e) \<Longrightarrow> since s B t"
  by (auto simp: since_def list_all_iff)

lemma since_trans: "since s A t \<Longrightarrow> since t A u \<Longrightarrow> since s A u"
  by (auto simp: since_def)

lemma calls_during_trans:
  "since s A t \<Longrightarrow> since t B u \<Longrightarrow> calls_during s u = calls_during t u @ calls_during s t"
  by (auto simp: since_def calls_during_def)

lemma before_step_refl: "dicts_ok K s \<Longrightarrow> before_step s A K s"
  by (simp add: before_step_def since_refl)

lemmas step_defs = before_step_def after_step_def within_step_def dicts_ok_def since_def record_call_def

lemma clip_phase_inv:
  "A ClipGradNorm \<Longrightarrow>
   triple (before_step s0 A K) (clip_phase env cfg) (before_step s0 A K) (before_step s0 A K)"
  unfolding triple_def clip_phase_def
  by (auto simp: step_defs split: option.splits)

lemma forget_sensitivity_phase_inv:
  assumes "\<And>a. A (UpdateSensitivityDict a)"
      and "\<And>m h f r a h'. K h f r \<Longrightarrow>
              update_sensitivity_dict env m f (prune_metric cfg) h = Inr (a, h') \<Longrightarrow> K h' a r"
  shows "triple (before_step s0 A K) (forget_sensitivity_phase env cfg)
           (before_step s0 A K) (before_step s0 A K)"
  unfolding triple_def forget_sensitivity_phase_def
  using assms by (auto simp: step_defs split: sum.splits)

lemma retain_sensitivity_phase_inv:
  assumes "\<And>a. A (UpdateSensitivityDict a)"
      and "\<And>m h f r a h'. K h f r \<Longrightarrow>
              update_sensitivity_dict env m r (prune_metric cfg) h = Inr (a, h') \<Longrightarrow> K h' f a"
  shows "triple (before_step s0 A K) (retain_sensitivity_phase env cfg)
           (before_step s0 A K) (before_step s0 A K)"
  unfolding triple_def retain_sensitivity_phase_def
  using assms by (auto simp: step_defs split: sum.splits)

lemma scheduled_ratio_before_step:
  "before_step s0 A K t \<Longrightarrow> scheduled_ratio env cfg t = scheduled_ratio env cfg s0"
  by (simp add: before_step_def scheduled_ratio_def)

lemma schedule_phase_inv:
  assumes "A (ScheduleSparsityRatio (global_step s0) (max_steps s0))"
      and "\<And>r. scheduled_ratio env cfg s0 = Inr r \<Longrightarrow> triple (before_step s0 A K) (k r) Q E"
      and "\<And>t. before_step s0 A K t \<Longrightarrow> E t"
  shows "triple (before_step s0 A K) (\<lambda>s. schedule_phase env cfg s k) Q E"
proof (rule tripleI)
  fix s assume i: "before_step s0 A K s"
  let ?s1 = "record_call (ScheduleSparsityRatio (global_step s) (max_steps s)) s"
  from i assms(1) have i1: "before_step s0 A K ?s1"
    by (auto simp: step_defs)
  show "case schedule_phase env cfg s k of Completed t \<Rightarrow> Q t | Raised e t \<Rightarrow> E t"
  proof (cases "scheduled_ratio env cfg s")
    case (Inl e)
    with i1 assms(3) show ?thesis by (simp add: schedule_phase_def Let_def)
  next
    case (Inr r)
    with i have "scheduled_ratio env cfg s0 = Inr r" by (simp add: scheduled_ratio_before_step)
    from assms(2)[OF this] i1 have "case k r ?s1 of Completed t \<Rightarrow> Q t | Raised e t \<Rightarrow> E t"
      by (simp add: triple_def)
    with Inr show ?thesis by (simp add: schedule_phase_def Let_def)
  qed
qed

lemma prune_phase_inv:
  assumes "\<And>d. prune_gate cfg (global_step s0) r = Inr True \<Longrightarrow>
             A (UnlearningPrune d r (unlearning_threshold cfg))"
  shows "triple (before_step s0 A K) (prune_phase env cfg r)
           (before_step s0 A K) (before_step s0 A K)"
  unfolding triple_def prune_phase_def
  using assms by (auto simp: step_defs split: sum.splits bool.splits)

lemma optimizer_phase_inv:
  "A OptimizerStep \<Longrightarrow> A LrSchedulerStep \<Longrightarrow>
   triple (before_step s0 A K) (optimizer_phase env cfg) (before_step s0 A K) (before_step s0 A K)"
  unfolding triple_def optimizer_phase_def
  by (auto simp: step_defs Let_def split: prod.splits)

lemma finish_phase_inv:
  "A ZeroGrad \<Longrightarrow>
   triple (before_step s0 A K) (finish_phase env n ep step) (after_step s0 A K) (after_step s0 A K)"
  unfolding triple_def finish_phase_def
  by (auto simp: step_defs Let_def)

lemma batch_prefix_inv:
  "A TrainingStep \<Longrightarrow> A DeepspeedStep \<Longrightarrow>
   triple (before_step s0 A K) (batch_prefix env cfg step inputs)
     (before_step s0 A K) (before_step s0 A K)"
  unfolding triple_def batch_prefix_def
  by (auto simp: step_defs Let_def split: prod.splits)

lemma forget_boundary_inv:
  assumes a: "forget_calls s0 A" and k: "forget_dicts env cfg K"
  shows "triple (before_step s0 A K) (forget_boundary env cfg n ep step)
           (after_step s0 A K) (within_step s0 A K)"
proof -
  have w1: "\<And>t. before_step s0 A K t \<Longrightarrow> within_step s0 A K t"
    and w2: "\<And>t. after_step s0 A K t \<Longrightarrow> within_step s0 A K t"
    by (simp_all add: within_step_def)
  have c: "triple (before_step s0 A K) (clip_phase env cfg) (before_step s0 A K) (within_step s0 A K)"
    using a by (intro triple_conseq[OF clip_phase_inv] w1) (simp_all add: forget_calls_def)
  have u: "triple (before_step s0 A K) (forget_sensitivity_phase env cfg)
             (before_step s0 A K) (within_step s0 A K)"
    using a k by (intro triple_conseq[OF forget_sensitivity_phase_inv] w1)
      (auto simp: forget_calls_def forget_dicts_def)
  have f: "triple (before_step s0 A K) (finish_phase env n ep step)
             (after_step s0 A K) (within_step s0 A K)"
    using a by (intro triple_conseq[OF finish_phase_inv] w2) (simp_all add: forget_calls_def)
  have s: "triple (before_step s0 A K)
             (\<lambda>s2. schedule_phase env cfg s2 (\<lambda>r s3. finish_phase env n ep step s3))
             (after_step s0 A K) (within_step s0 A K)"
    using a f by (intro schedule_phase_inv w1) (simp_all add: forget_calls_def)
  show ?thesis
    unfolding forget_boundary_def
    by (rule triple_and_then[OF c] triple_and_then[OF u] s)+
qed

lemma retain_boundary_inv:
  assumes a: "retain_calls env cfg s0 A" and k: "retain_dicts env cfg K"
  shows "triple (before_step s0 A K) (retain_boundary env cfg n ep step)
           (after_step s0 A K) (within_step s0 A K)"
proof -
  have w1: "\<And>t. before_step s0 A K t \<Longrightarrow> within_step s0 A K t"
    and w2: "\<And>t. after_step s0 A K t \<Longrightarrow> within_step s0 A K t"
    by (simp_all add: within_step_def)
  have c: "triple (before_step s0 A K) (clip_phase env cfg) (before_step s0 A K) (within_step s0 A K)"
    using a by (intro triple_conseq[OF clip_phase_inv] w1) (simp_all add: retain_calls_def forget_calls_def)
  have u: "triple (before_step s0 A K) (retain_sensitivity_phase env cfg)
             (before_step s0 A K) (within_step s0 A K)"
    using a k by (intro triple_conseq[OF retain_sensitivity_phase_inv] w1)
      (auto simp: retain_calls_def forget_calls_def retain_dicts_def)
  have f: "triple (before_step s0 A K) (finish_phase env n ep step)
             (after_step s0 A K) (within_step s0 A K)"
    using a by (intro triple_conseq[OF finish_phase_inv] w2) (simp_all add: retain_calls_def forget_calls_def)
  have opt: "triple (before_step s0 A K) (optimizer_phase env cfg)
             (before_step s0 A K) (within_step s0 A K)"
    using a by (intro triple_conseq[OF optimizer_phase_inv] w1) (simp_all add: retain_calls_def)
  have p: "triple (before_step s0 A K) (prune_phase env cfg r)
             (before_step s0 A K) (within_step s0 A K)"
    if "scheduled_ratio env cfg s0 = Inr r" for r
    using a that by (intro triple_conseq[OF prune_phase_inv] w1) (simp_all add: retain_calls_def)
  have s: "triple (before_step s0 A K)
             (\<lambda>s2. schedule_phase env cfg s2 (\<lambda>r s3.
                and_then (prune_phase env cfg r s3) (\<lambda>s4.
                and_then (optimizer_phase env cfg s4) (\<lambda>s5.
                finish_phase env n ep step s5))))
             (after_step s0 A K) (within_step s0 A K)"
  proof (intro schedule_phase_inv w1)
    show "A (ScheduleSparsityRatio (global_step s0) (max_steps s0))"
      using a by (simp add: retain_calls_def forget_calls_def)
  next
    fix r assume r: "scheduled_ratio env cfg s0 = Inr r"
    show "triple (before_step s0 A K)
            (\<lambda>s3. and_then (prune_phase env cfg r s3) (\<lambda>s4.
                and_then (optimizer_phase env cfg s4) (\<lambda>s5.
                finish_phase env n ep step s5)))
            (after_step s0 A K) (within_step s0 A K)"
      by (rule triple_and_then[OF p[OF r]] triple_and_then[OF opt] f)+
  qed
  show ?thesis
    unfolding retain_boundary_def
    by (rule triple_and_then[OF c] triple_and_then[OF u] s)+
qed

lemma within_step_since: "within_step s0 A K t \<Longrightarrow> since s0 A t"
  by (auto simp: within_step_def before_step_def after_step_def)

lemma forget_batch_inv:
  assumes a: "forget_calls s0 A" and k: "forget_dicts env cfg K"
  shows "triple (before_step s0 A K) (forget_batch env cfg n ep step inputs)
           (within_step s0 A K) (within_step s0 A K)"
proof -
  have "triple (before_step s0 A K) (batch_prefix env cfg step inputs)
             (before_step s0 A K) (before_step s0 A K)"
    using a by (intro batch_prefix_inv) (simp_all add: forget_calls_def)
  then have p: "triple (before_step s0 A K) (batch_prefix env cfg step inputs)
             (before_step s0 A K) (within_step s0 A K)"
    by (rule triple_conseq) (simp_all add: within_step_def)
  have b: "triple (before_step s0 A K)
             (\<lambda>s1. if at_boundary cfg n step s1 then forget_boundary env cfg n ep step s1
                    else Completed (s1\<lparr>control := on_substep_end env (global_step s1) (control s1)\<rparr>))
             (within_step s0 A K) (within_step s0 A K)"
  proof (rule triple_if)
    show "triple (\<lambda>s. before_step s0 A K s \<and> at_boundary cfg n step s)
            (forget_boundary env cfg n ep step) (within_step s0 A K) (within_step s0 A K)"
      by (rule triple_conseq[OF forget_boundary_inv[OF a k]]) (simp_all add: within_step_def)
  next
    show "triple (\<lambda>s. before_step s0 A K s \<and> \<not> at_boundary cfg n step s)
            (\<lambda>s1. Completed (s1\<lparr>control := on_substep_end env (global_step s1) (control s1)\<rparr>))
            (within_step s0 A K) (within_step s0 A K)"
      by (simp add: triple_def step_defs)
  qed
  show ?thesis
    unfolding forget_batch_def by (rule triple_and_then[OF p b])
qed

lemma retain_batch_inv:
  assumes a: "retain_calls env cfg s0 A" and k: "retain_dicts env cfg K"
  shows "triple (before_step s0 A K) (retain_batch env cfg n ep step inputs)
           (within_step s0 A K) (within_step s0 A K)"
proof -
  have "triple (before_step s0 A K) (batch_prefix env cfg step inputs)
             (before_step s0 A K) (before_step s0 A K)"
    using a by (intro batch_prefix_inv) (simp_all add: retain_calls_def forget_calls_def)
  then have p: "triple (before_step s0 A K) (batch_prefix env cfg step inputs)
             (before_step s0 A K) (within_step s0 A K)"
    by (rule triple_conseq) (simp_all add: within_step_def)
  have b: "triple (before_step s0 A K)
             (\<lambda>s1. if at_boundary cfg n step s1 then retain_boundary env cfg n ep step s1
                    else Completed (s1\<lparr>control := on_substep_end env (global_step s1) (control s1)\<rparr>))
             (within_step s0 A K) (within_step s0 A K)"
  proof (rule triple_if)
    show "triple (\<lambda>s. before_step s0 A K s \<and> at_boundary cfg n step s)
            (retain_boundary env cfg n ep step) (within_step s0 A K) (within_step s0 A K)"
      by (rule triple_conseq[OF retain_boundary_inv[OF a k]]) (simp_all add: within_step_def)
  next
    show "triple (\<lambda>s. before_step s0 A K s \<and> \<not> at_boundary cfg n step s)
            (\<lambda>s1. Completed (s1\<lparr>control := on_substep_end env (global_step s1) (control s1)\<rparr>))
            (within_step s0 A K) (within_step s0 A K)"
      by (simp add: triple_def step_defs)
  qed
  show ?thesis
    unfolding retain_batch_def by (rule triple_and_then[OF p b])
qed

lemma any_dicts_ok [simp]:
  "dicts_ok any_dicts s" "forget_dicts env cfg any_dicts" "retain_dicts env cfg any_dicts"
  by (simp_all add: dicts_ok_def any_dicts_def forget_dicts_def retain_dicts_def)

lemma forget_batch_within:
  "forget_calls s A \<Longrightarrow> within_step s A any_dicts (state_of (forget_batch env cfg n ep step inputs s))"
  by (rule triple_state_of[OF forget_batch_inv]) (simp_all add: before_step_refl)

lemma retain_batch_within:
  "retain_calls env cfg s A \<Longrightarrow>
   within_step s A any_dicts (state_of (retain_batch env cfg n ep step inputs s))"
  by (rule triple_state_of[OF retain_batch_inv]) (simp_all add: before_step_refl)

lemma batch_calls_forget: "batch_calls A \<Longrightarrow> forget_calls s A"
  by (simp add: batch_calls_def forget_calls_def)

lemma forget_stream_calls: "batch_calls forget_stream_call"
  by (simp add: batch_calls_def)

lemma forget_batch_since:
  "batch_calls A \<Longrightarrow> since s A (state_of (forget_batch env cfg n ep step inputs s))"
  by (rule within_step_since[OF forget_batch_within[OF batch_calls_forget]])

lemma forget_loop_since:
  "batch_calls A \<Longrightarrow> since s A (state_of (forget_loop env cfg n ep step batches s))"
proof (induction batches arbitrary: step s)
  case Nil
  show ?case by (simp add: since_refl)
next
  case (Cons inputs rest)
  have b: "since s A (state_of (forget_batch env cfg n ep step inputs s))"
    by (rule forget_batch_since[OF Cons.prems])
  show ?case
  proof (cases "forget_batch env cfg n ep step inputs s")
    case (Raised e s1)
    with b show ?thesis by simp
  next
    case (Completed s1)
    with b have s1: "since s A s1" by simp
    from Cons.IH[OF Cons.prems] have "since s1 A (state_of (forget_loop env cfg n ep (step + 1) rest s1))" .
    with s1 have "since s A (state_of (forget_loop env cfg n ep (step + 1) rest s1))"
      by (rule since_trans)
    with Completed s1 show ?thesis by simp
  qed
qed

section \<open>The claims\<close>

lemmas run_defs = example_start_def start_training_def retain_batch_def forget_batch_def
  batch_prefix_def at_boundary_def closes_window_def
  retain_boundary_def forget_boundary_def clip_phase_def retain_sensitivity_phase_def
  forget_sensitivity_phase_def schedule_phase_def scheduled_ratio_def prune_phase_def
  prune_gate_def dual_sensitivity_of_def optimizer_phase_def finish_phase_def record_call_def
  calls_during_def spec_collaborators_def default_config_def fresh_trainer_def two_groups_def
  network_readings_def spec_init_sensitivity_dict_def spec_update_sensitivity_dict_def
  importance_def group_weights_def spec_compute_dual_sensitivity_def ratio_at_def
  spec_unlearning_prune_def shapes_match_def selected_def needed_def count_elements_def
  count_pruned_def Let_def example_after_forget_def

subsection \<open>When pruning is attempted\<close>

text \<open>
  C1. A batch of the retain stream calls \<open>unlearning_prune\<close> only when the global
  step is divisible by \<open>prune_freq\<close> and the scheduled ratio of that step is
  strictly above \<open>init_ratio\<close>; a batch of the forget stream never calls it; with
  \<open>prune_freq = 10\<close> at global step 7 no pruning call is made, whatever the
  sensitivity dicts hold.
\<close>

theorem prune_only_when_gates_hold:
  "(UnlearningPrune d r t \<in> set (calls_during s (state_of (retain_batch env cfg n ep step inputs s)))
      \<longrightarrow> global_step s mod prune_freq cfg = 0 \<and> scheduled_ratio env cfg s = Inr r
          \<and> init_ratio cfg < r)
   \<and> UnlearningPrune d r t \<notin> set (calls_during s (state_of (forget_batch env cfg n ep step inputs s)))
   \<and> (prune_freq cfg = 10 \<and> global_step s = 7
      \<longrightarrow> UnlearningPrune d r t \<notin> set (calls_during s (state_of (retain_batch env cfg n ep step inputs s))))"
proof -
  let ?A = "\<lambda>e. \<forall>d r t. e = UnlearningPrune d r t \<longrightarrow>
              global_step s mod prune_freq cfg = 0 \<and> scheduled_ratio env cfg s = Inr r
              \<and> init_ratio cfg < r"
  have "retain_calls env cfg s ?A"
    by (auto simp: retain_calls_def forget_calls_def prune_gate_def split: if_splits)
  then have "since s ?A (state_of (retain_batch env cfg n ep step inputs s))"
    by (rule within_step_since[OF retain_batch_within])
  then have r: "UnlearningPrune d r t \<in> set (calls_during s (state_of (retain_batch env cfg n ep step inputs s)))
      \<Longrightarrow> global_step s mod prune_freq cfg = 0 \<and> scheduled_ratio env cfg s = Inr r \<and> init_ratio cfg < r"
    by (blast dest: since_calls)
  have "since s forget_stream_call (state_of (forget_batch env cfg n ep step inputs s))"
    by (rule forget_batch_since[OF forget_stream_calls])
  then have f: "UnlearningPrune d r t \<notin> set (calls_during s (state_of (forget_batch env cfg n ep step inputs s)))"
    by (auto dest: since_calls)
  from r f show ?thesis by auto
qed

theorem prune_only_when_gates_hold_witness:
  "UnlearningPrune [(''A'', [0]), (''B'', [0])] (1 / 4) (1 / 10)
     \<in> set (calls_during (example_start 50)
              (state_of (retain_batch spec_collaborators default_config 1 0 0 () (example_start 50))))
   \<and> global_step (example_start 50) mod prune_freq default_config = 0
   \<and> scheduled_ratio spec_collaborators default_config (example_start 50) = Inr (1 / 4)
   \<and> init_ratio default_config < 1 / 4
   \<and> prune_freq default_config = 10 \<and> global_step (example_start 7) = 7
   \<and> UnlearningPrune [(''A'', [0]), (''B'', [0])] (1 / 4) (1 / 10)
     \<notin> set (calls_during (example_start 7)
              (state_of (retain_batch spec_collaborators default_config 1 0 0 () (example_start 7))))"
proof -
  have h: "UnlearningPrune [(''A'', [0]), (''B'', [0])] (1 / 4) (1 / 10)
     \<in> set (calls_during (example_start 50)
              (state_of (retain_batch spec_collaborators default_config 1 0 0 () (example_start 50))))"
    by (simp add: run_defs)
  have g: "prune_freq default_config = 10 \<and> global_step (example_start 7) = 7"
    by (simp add: run_defs)
  from h prune_only_when_gates_hold[where s = "example_start 50" and env = spec_collaborators
      and cfg = default_config and d = "[(''A'', [0]), (''B'', [0])]" and r = "1 / 4" and t = "1 / 10"
      and n = 1 and ep = 0 and step = 0 and inputs = "()"]
  have a: "global_step (example_start 50) mod prune_freq default_config = 0
   \<and> scheduled_ratio spec_collaborators default_config (example_start 50) = Inr (1 / 4)
   \<and> init_ratio default_config < 1 / 4"
    by blast
  from g prune_only_when_gates_hold[where s = "example_start 7" and env = spec_collaborators
      and cfg = default_config and d = "[(''A'', [0]), (''B'', [0])]" and r = "1 / 4" and t = "1 / 10"
      and n = 1 and ep = 0 and step = 0 and inputs = "()"]
  have b: "UnlearningPrune [(''A'', [0]), (''B'', [0])] (1 / 4) (1 / 10)
     \<notin> set (calls_during (example_start 7)
              (state_of (retain_batch spec_collaborators default_config 1 0 0 () (example_start 7))))"
    by blast
  from h g a b show ?thesis by blast
qed

subsection \<open>The step counter\<close>

lemma any_calls [simp]: "batch_calls any_call" "forget_calls s any_call" "retain_calls env cfg s any_call"
  by (simp_all add: batch_calls_def forget_calls_def retain_calls_def any_call_def)

lemma called_calls: "called s e t \<Longrightarrow> e \<in> set (calls_during s t)"
  by (auto simp: called_def calls_during_def)

lemma called_since: "called s0 e s \<Longrightarrow> since s A t \<Longrightarrow> called s0 e t"
  by (auto simp: called_def since_def)

lemma since_called: "since s0 A s \<Longrightarrow> called s e t \<Longrightarrow> called s0 e t"
  by (auto simp: called_def since_def)

lemma called_record_call: "called s e (record_call e s)"
  by (simp add: called_def record_call_def)

lemma and_then_Completed:
  "and_then x f = Completed t \<Longrightarrow> \<exists>s1. x = Completed s1 \<and> f s1 = Completed t"
  by (cases x) simp_all

lemma batch_prefix_boundary:
  "batch_prefix env cfg step inputs s = Completed s1 \<Longrightarrow>
   at_boundary cfg n step s1 = closes_window cfg n step s"
  by (auto simp: batch_prefix_def at_boundary_def closes_window_def record_call_def Let_def
      split: if_splits prod.splits)

lemma batch_prefix_before:
  "batch_prefix env cfg step inputs s = Completed s1 \<Longrightarrow> before_step s any_call any_dicts s1"
  by (rule triple_completed[OF batch_prefix_inv, where s = s])
    (simp_all add: any_call_def before_step_refl)

lemma forget_batch_counts:
  assumes "forget_batch env cfg n ep step inputs s = Completed t"
  shows "global_step t = (if closes_window cfg n step s then global_step s + 1 else global_step s)"
proof -
  from assms obtain s1 where p: "batch_prefix env cfg step inputs s = Completed s1"
    and r: "(if at_boundary cfg n step s1 then forget_boundary env cfg n ep step s1
             else Completed (s1\<lparr>control := on_substep_end env (global_step s1) (control s1)\<rparr>))
            = Completed t"
    unfolding forget_batch_def by (blast dest: and_then_Completed)
  from p have b: "before_step s any_call any_dicts s1" by (rule batch_prefix_before)
  from p have w: "at_boundary cfg n step s1 = closes_window cfg n step s"
    by (rule batch_prefix_boundary)
  show ?thesis
  proof (cases "closes_window cfg n step s")
    case True
    with r w have "forget_boundary env cfg n ep step s1 = Completed t" by simp
    with b have "after_step s any_call any_dicts t"
      by (rule triple_completed[OF forget_boundary_inv, rotated 2]) simp_all
    with True show ?thesis by (simp add: after_step_def)
  next
    case False
    with r w have "t = s1\<lparr>control := on_substep_end env (global_step s1) (control s1)\<rparr>" by simp
    with b False show ?thesis by (simp add: before_step_def)
  qed
qed

lemma retain_batch_counts:
  assumes "retain_batch env cfg n ep step inputs s = Completed t"
  shows "global_step t = (if closes_window cfg n step s then global_step s + 1 else global_step s)"
proof -
  from assms obtain s1 where p: "batch_prefix env cfg step inputs s = Completed s1"
    and r: "(if at_boundary cfg n step s1 then retain_boundary env cfg n ep step s1
             else Completed (s1\<lparr>control := on_substep_end env (global_step s1) (control s1)\<rparr>))
            = Completed t"
    unfolding retain_batch_def by (blast dest: and_then_Completed)
  from p have b: "before_step s any_call any_dicts s1" by (rule batch_prefix_before)
  from p have w: "at_boundary cfg n step s1 = closes_window cfg n step s"
    by (rule batch_prefix_boundary)
  show ?thesis
  proof (cases "closes_window cfg n step s")
    case True
    with r w have "retain_boundary env cfg n ep step s1 = Completed t" by simp
    with b have "after_step s any_call any_dicts t"
      by (rule triple_completed[OF retain_boundary_inv, rotated 2]) simp_all
    with True show ?thesis by (simp add: after_step_def)
  next
    case False
    with r w have "t = s1\<lparr>control := on_substep_end env (global_step s1) (control s1)\<rparr>" by simp
    with b False show ?thesis by (simp add: before_step_def)
  qed
qed

lemma schedule_call_step:
  "retain_calls env cfg s (\<lambda>e. \<forall>g m. e = ScheduleSparsityRatio g m \<longrightarrow> g = global_step s)"
  by (simp add: retain_calls_def forget_calls_def)

lemma forget_batch_schedules_at:
  assumes "ScheduleSparsityRatio g m \<in> set (calls_during s (state_of (forget_batch env cfg n ep step inputs s)))"
  shows "g = global_step s"
proof -
  let ?A = "\<lambda>e. \<forall>g m. e = ScheduleSparsityRatio g m \<longrightarrow> g = global_step s"
  have "forget_calls s ?A" by (simp add: forget_calls_def)
  then have "since s ?A (state_of (forget_batch env cfg n ep step inputs s))"
    by (rule within_step_since[OF forget_batch_within])
  with assms show ?thesis by (blast dest: since_calls)
qed

lemma retain_batch_schedules_at:
  assumes "ScheduleSparsityRatio g m \<in> set (calls_during s (state_of (retain_batch env cfg n ep step inputs s)))"
  shows "g = global_step s"
proof -
  let ?A = "\<lambda>e. \<forall>g m. e = ScheduleSparsityRatio g m \<longrightarrow> g = global_step s"
  have "since s ?A (state_of (retain_batch env cfg n ep step inputs s))"
    by (rule within_step_since[OF retain_batch_within[OF schedule_call_step]])
  with assms show ?thesis by (blast dest: since_calls)
qed

text \<open>
  C10. A completed batch of either stream that closes a gradient-accumulation
  window leaves \<open>global_step\<close> one higher, and any other completed batch leaves it
  as it was. The schedule is always asked for the ratio of that shared counter: a
  retain batch that follows a counted forget batch schedules with the step the
  forget batch has counted.
\<close>

theorem global_step_counts_both_streams:
  "(forget_batch env cfg n ep step inputs s = Completed t \<longrightarrow>
      global_step t = (if closes_window cfg n step s then global_step s + 1 else global_step s))
   \<and> (retain_batch env cfg n ep step inputs s = Completed t \<longrightarrow>
      global_step t = (if closes_window cfg n step s then global_step s + 1 else global_step s))
   \<and> (ScheduleSparsityRatio g m
         \<in> set (calls_during s (state_of (forget_batch env cfg n ep step inputs s)))
       \<longrightarrow> g = global_step s)
   \<and> (ScheduleSparsityRatio g m
         \<in> set (calls_during s (state_of (retain_batch env cfg n ep step inputs s)))
       \<longrightarrow> g = global_step s)
   \<and> (forget_batch env cfg n ep step inputs s = Completed t \<and> closes_window cfg n step s
       \<and> ScheduleSparsityRatio g m
         \<in> set (calls_during t (state_of (retain_batch env cfg n ep step' inputs' t)))
       \<longrightarrow> g = global_step s + 1)"
proof (intro conjI impI)
  assume "forget_batch env cfg n ep step inputs s = Completed t"
  then show "global_step t = (if closes_window cfg n step s then global_step s + 1 else global_step s)"
    by (rule forget_batch_counts)
next
  assume "retain_batch env cfg n ep step inputs s = Completed t"
  then show "global_step t = (if closes_window cfg n step s then global_step s + 1 else global_step s)"
    by (rule retain_batch_counts)
next
  assume "ScheduleSparsityRatio g m
         \<in> set (calls_during s (state_of (forget_batch env cfg n ep step inputs s)))"
  then show "g = global_step s" by (rule forget_batch_schedules_at)
next
  assume "ScheduleSparsityRatio g m
         \<in> set (calls_during s (state_of (retain_batch env cfg n ep step inputs s)))"
  then show "g = global_step s" by (rule retain_batch_schedules_at)
next
  assume a: "forget_batch env cfg n ep step inputs s = Completed t \<and> closes_window cfg n step s
       \<and> ScheduleSparsityRatio g m
         \<in> set (calls_during t (state_of (retain_batch env cfg n ep step' inputs' t)))"
  then have "g = global_step t" by (blast intro: retain_batch_schedules_at)
  moreover from a have "global_step t = global_step s + 1"
    using forget_batch_counts[of env cfg n ep step inputs s t] by simp
  ultimately show "g = global_step s + 1" by simp
qed

theorem global_step_counts_both_streams_witness:
  "forget_batch spec_collaborators default_config 1 0 0 () (example_start 49)
     = Completed (example_after_forget 49)
   \<and> closes_window default_config 1 0 (example_start 49)
   \<and> ScheduleSparsityRatio 50 100
       \<in> set (calls_during (example_after_forget 49)
           (state_of (retain_batch spec_collaborators default_config 1 0 0 () (example_after_forget 49))))
   \<and> global_step (example_after_forget 49) = global_step (example_start 49) + 1
   \<and> (50 :: int) = global_step (example_start 49) + 1"
proof -
  have a: "forget_batch spec_collaborators default_config 1 0 0 () (example_start 49)
     = Completed (example_after_forget 49)"
    by (simp add: run_defs)
  have b: "closes_window default_config 1 0 (example_start 49)"
    by (simp add: run_defs)
  have c: "ScheduleSparsityRatio 50 100
       \<in> set (calls_during (example_after_forget 49)
           (state_of (retain_batch spec_collaborators default_config 1 0 0 () (example_after_forget 49))))"
    by (simp add: run_defs)
  note t = global_step_counts_both_streams[where env = spec_collaborators and cfg = default_config
      and n = 1 and ep = 0 and step = 0 and inputs = "()" and s = "example_start 49"
      and t = "example_after_forget 49" and g = 50 and m = 100 and step' = 0 and inputs' = "()"]
  from t a b have d: "global_step (example_after_forget 49) = global_step (example_start 49) + 1"
    by simp
  from t a b c have e: "(50 :: int) = global_step (example_start 49) + 1"
    by blast
  from a b c d e show ?thesis by blast
qed

subsection \<open>The forget stream\<close>

lemma forget_batch_ignores_pruning:
  "forget_batch (env\<lparr>compute_dual_sensitivity := c, unlearning_prune := p\<rparr>) cfg n ep step inputs s
   = forget_batch env cfg n ep step inputs s"
  by (simp add: forget_batch_def forget_boundary_def batch_prefix_def clip_phase_def
      forget_sensitivity_phase_def schedule_phase_def scheduled_ratio_def finish_phase_def
      cong: if_cong option.case_cong sum.case_cong)

lemma forget_loop_ignores_pruning:
  "forget_loop (env\<lparr>compute_dual_sensitivity := c, unlearning_prune := p\<rparr>) cfg n ep step batches s
   = forget_loop env cfg n ep step batches s"
  by (induction batches arbitrary: step s)
    (simp_all add: forget_batch_ignores_pruning cong: if_cong outcome.case_cong)

lemma schedule_then_finish:
  assumes b: "before_step s0 any_call any_dicts s"
      and c: "schedule_phase env cfg s (\<lambda>r. finish_phase env n ep step) = Completed t"
  shows "called s0 (ScheduleSparsityRatio (global_step s0) (max_steps s0)) t"
proof -
  let ?e = "ScheduleSparsityRatio (global_step s) (max_steps s)"
  from c have f: "finish_phase env n ep step (record_call ?e s) = Completed t"
    by (simp add: schedule_phase_def Let_def split: sum.splits)
  have "before_step (record_call ?e s) any_call any_dicts (record_call ?e s)"
    by (simp add: before_step_refl)
  then have "after_step (record_call ?e s) any_call any_dicts t"
    using f by (rule triple_completed[OF finish_phase_inv, rotated 1]) (simp add: any_call_def)
  then have "since (record_call ?e s) any_call t" by (simp add: after_step_def)
  with called_record_call have "called s ?e t" by (rule called_since)
  with b have "called s0 ?e t"
    by (auto simp: before_step_def intro: since_called)
  with b show ?thesis by (simp add: before_step_def)
qed

lemma forget_boundary_schedules:
  assumes b: "before_step s0 any_call any_dicts s"
      and c: "forget_boundary env cfg n ep step s = Completed t"
  shows "called s0 (ScheduleSparsityRatio (global_step s0) (max_steps s0)) t"
proof -
  from c obtain s1 s2 where c1: "clip_phase env cfg s = Completed s1"
    and c2: "forget_sensitivity_phase env cfg s1 = Completed s2"
    and c3: "schedule_phase env cfg s2 (\<lambda>r. finish_phase env n ep step) = Completed t"
    unfolding forget_boundary_def by (blast dest: and_then_Completed)
  from b c1 have "before_step s0 any_call any_dicts s1"
    by (rule triple_completed[OF clip_phase_inv, rotated]) (simp add: any_call_def)
  then have "before_step s0 any_call any_dicts s2"
    using c2 by (rule triple_completed[OF forget_sensitivity_phase_inv, rotated 2])
      (simp_all add: any_call_def any_dicts_def)
  with c3 show ?thesis by (rule schedule_then_finish[rotated])
qed

lemma forget_batch_schedules:
  assumes c: "forget_batch env cfg n ep step inputs s = Completed t"
      and w: "closes_window cfg n step s"
  shows "ScheduleSparsityRatio (global_step s) (max_steps s) \<in> set (calls_during s t)"
proof -
  from c obtain s1 where p: "batch_prefix env cfg step inputs s = Completed s1"
    and r: "(if at_boundary cfg n step s1 then forget_boundary env cfg n ep step s1
             else Completed (s1\<lparr>control := on_substep_end env (global_step s1) (control s1)\<rparr>))
            = Completed t"
    unfolding forget_batch_def by (blast dest: and_then_Completed)
  from p have b: "before_step s any_call any_dicts s1" by (rule batch_prefix_before)
  from p w have "at_boundary cfg n step s1" by (simp add: batch_prefix_boundary)
  with r have "forget_boundary env cfg n ep step s1 = Completed t" by simp
  with b have "called s (ScheduleSparsityRatio (global_step s) (max_steps s)) t"
    by (rule forget_boundary_schedules)
  then show ?thesis by (rule called_calls)
qed

text \<open>
  C9. The forget stream of an epoch never calls \<open>unlearning_prune\<close>, and what it does
  is the same whatever \<open>compute_dual_sensitivity\<close> and \<open>unlearning_prune\<close> are: neither
  is invoked, so no weight is pruned by a forget-stream step. A completed forget
  batch that closes an accumulation window does ask the scheduler for the ratio
  of the current global step.
\<close>

theorem forget_stream_never_prunes:
  "UnlearningPrune d r t
     \<notin> set (calls_during s (state_of (forget_loop env cfg n ep step batches s)))
   \<and> forget_loop (env\<lparr>compute_dual_sensitivity := c, unlearning_prune := p\<rparr>) cfg n ep step batches s
     = forget_loop env cfg n ep step batches s
   \<and> (forget_batch env cfg n ep step inputs s = Completed s' \<and> closes_window cfg n step s
      \<longrightarrow> ScheduleSparsityRatio (global_step s) (max_steps s) \<in> set (calls_during s s'))"
proof (intro conjI impI)
  have "since s forget_stream_call (state_of (forget_loop env cfg n ep step batches s))"
    by (rule forget_loop_since[OF forget_stream_calls])
  then show "UnlearningPrune d r t
     \<notin> set (calls_during s (state_of (forget_loop env cfg n ep step batches s)))"
    by (auto dest: since_calls)
next
  show "forget_loop (env\<lparr>compute_dual_sensitivity := c, unlearning_prune := p\<rparr>) cfg n ep step batches s
     = forget_loop env cfg n ep step batches s"
    by (rule forget_loop_ignores_pruning)
next
  assume "forget_batch env cfg n ep step inputs s = Completed s' \<and> closes_window cfg n step s"
  then show "ScheduleSparsityRatio (global_step s) (max_steps s) \<in> set (calls_during s s')"
    by (blast intro: forget_batch_schedules)
qed

theorem forget_stream_never_prunes_witness:
  "forget_batch spec_collaborators default_config 1 0 0 () (example_start 50)
     = Completed (example_after_forget 50)
   \<and> closes_window default_config 1 0 (example_start 50)
   \<and> ScheduleSparsityRatio (global_step (example_start 50)) (max_steps (example_start 50))
       \<in> set (calls_during (example_start 50) (example_after_forget 50))
   \<and> UnlearningPrune [] 0 0
     \<notin> set (calls_during (example_start 50)
         (state_of (forget_loop spec_collaborators default_config 1 0 0 [()] (example_start 50))))"
proof -
  have a: "forget_batch spec_collaborators default_config 1 0 0 () (example_start 50)
     = Completed (example_after_forget 50)"
    by (simp add: run_defs)
  have b: "closes_window default_config 1 0 (example_start 50)"
    by (simp add: run_defs)
  note t = forget_stream_never_prunes[where env = spec_collaborators and cfg = default_config
      and n = 1 and ep = 0 and step = 0 and inputs = "()" and s = "example_start 50"
      and s' = "example_after_forget 50" and batches = "[()]" and d = "[]" and r = 0 and t = 0]
  from t a b show ?thesis by blast
qed

subsection \<open>The optimizer and the learning-rate scheduler\<close>










lemmas deepspeed_defs = deepspeed_config_def deepspeed_start_def example_after_retain_def



subsection \<open>The ceiling of the gate\<close>

lemma prune_phase_calls:
  "calls_during s (state_of (prune_phase env cfg r s))
   = (case prune_gate cfg (global_step s) r of
        Inl e \<Rightarrow> []
      | Inr False \<Rightarrow> []
      | Inr True \<Rightarrow>
         (case dual_sensitivity_of env s of
            Inl e \<Rightarrow> []
          | Inr dual \<Rightarrow> [UnlearningPrune dual r (unlearning_threshold cfg)]))"
  by (simp add: prune_phase_def calls_during_def record_call_def
      split: sum.splits bool.splits)

text \<open>
  C2, as the code has it. The test \<open>ratio < self.ratio\<close> is part of the gate of line
  409: a retain batch calls \<open>unlearning_prune\<close> only with a scheduled ratio strictly
  between \<open>init_ratio\<close> and the final ratio, and lines 409-424 make the call exactly
  when \<open>prune_freq\<close> is not zero and divides the global step, the ratio is strictly
  between the two, and the dual scores can be built. A ratio that has reached
  the final ratio is never pruned to.
\<close>

theorem prune_gate_has_ceiling:
  "(UnlearningPrune d r t \<in> set (calls_during s (state_of (retain_batch env cfg n ep step inputs s)))
      \<longrightarrow> global_step s mod prune_freq cfg = 0 \<and> init_ratio cfg < r \<and> r < ratio cfg)
   \<and> (\<exists>d t. UnlearningPrune d r t \<in> set (calls_during s (state_of (prune_phase env cfg r s))))
     = (prune_freq cfg \<noteq> 0 \<and> global_step s mod prune_freq cfg = 0
        \<and> init_ratio cfg < r \<and> r < ratio cfg
        \<and> (\<exists>dual. dual_sensitivity_of env s = Inr dual))
   \<and> (ratio cfg \<le> r
      \<longrightarrow> UnlearningPrune d r t \<notin> set (calls_during s (state_of (retain_batch env cfg n ep step inputs s))))"
proof -
  let ?A = "\<lambda>e. \<forall>d r t. e = UnlearningPrune d r t \<longrightarrow>
              global_step s mod prune_freq cfg = 0 \<and> init_ratio cfg < r \<and> r < ratio cfg"
  have "retain_calls env cfg s ?A"
    by (auto simp: retain_calls_def forget_calls_def prune_gate_def split: if_splits)
  then have "since s ?A (state_of (retain_batch env cfg n ep step inputs s))"
    by (rule within_step_since[OF retain_batch_within])
  then have a: "UnlearningPrune d r t \<in> set (calls_during s (state_of (retain_batch env cfg n ep step inputs s)))
      \<Longrightarrow> global_step s mod prune_freq cfg = 0 \<and> init_ratio cfg < r \<and> r < ratio cfg"
    by (blast dest: since_calls)
  have b: "(\<exists>d t. UnlearningPrune d r t \<in> set (calls_during s (state_of (prune_phase env cfg r s))))
     = (prune_freq cfg \<noteq> 0 \<and> global_step s mod prune_freq cfg = 0
        \<and> init_ratio cfg < r \<and> r < ratio cfg
        \<and> (\<exists>dual. dual_sensitivity_of env s = Inr dual))"
    by (cases "dual_sensitivity_of env s") (auto simp: prune_phase_calls prune_gate_def)
  from a have c: "ratio cfg \<le> r \<Longrightarrow>
      UnlearningPrune d r t \<notin> set (calls_during s (state_of (retain_batch env cfg n ep step inputs s)))"
    by auto
  from a b c show ?thesis by blast
qed

theorem prune_gate_has_ceiling_witness:
  "UnlearningPrune [(''A'', [0]), (''B'', [0])] (1 / 4) (1 / 10)
     \<in> set (calls_during (example_start 50) (example_after_retain 50))
   \<and> global_step (example_start 50) mod prune_freq default_config = 0
   \<and> init_ratio default_config < 1 / 4 \<and> (1 / 4 :: real) < ratio default_config
   \<and> ratio default_config \<le> 1 / 2
   \<and> UnlearningPrune [(''A'', [0]), (''B'', [0])] (1 / 2) (1 / 10)
     \<notin> set (calls_during (example_start 100) (example_after_retain 100))"
proof -
  have h: "UnlearningPrune [(''A'', [0]), (''B'', [0])] (1 / 4) (1 / 10)
     \<in> set (calls_during (example_start 50) (example_after_retain 50))"
    by (simp add: run_defs deepspeed_defs)
  have g: "ratio default_config \<le> 1 / 2" by (simp add: default_config_def)
  from h prune_gate_has_ceiling[where s = "example_start 50" and env = spec_collaborators
      and cfg = default_config and d = "[(''A'', [0]), (''B'', [0])]" and r = "1 / 4" and t = "1 / 10"
      and n = 1 and ep = 0 and step = 0 and inputs = "()"]
  have a: "global_step (example_start 50) mod prune_freq default_config = 0
   \<and> init_ratio default_config < 1 / 4 \<and> (1 / 4 :: real) < ratio default_config"
    unfolding example_after_retain_def by blast
  from g prune_gate_has_ceiling[where s = "example_start 100" and env = spec_collaborators
      and cfg = default_config and d = "[(''A'', [0]), (''B'', [0])]" and r = "1 / 2" and t = "1 / 10"
      and n = 1 and ep = 0 and step = 0 and inputs = "()"]
  have b: "UnlearningPrune [(''A'', [0]), (''B'', [0])] (1 / 2) (1 / 10)
     \<notin> set (calls_during (example_start 100) (example_after_retain 100))"
    unfolding example_after_retain_def by blast
  from h g a b show ?thesis by blast
qed

text \<open>
  C2 as stated fails: at global step 100 of 100 with the default configuration the
  step is divisible by \<open>prune_freq\<close>, the schedule returns the final ratio, which is
  above \<open>init_ratio\<close>, and the retain batch runs to its end without a pruning call.
\<close>

theorem no_pruning_at_final_ratio:
  "global_step (example_start 100) mod prune_freq default_config = 0
   \<and> scheduled_ratio spec_collaborators default_config (example_start 100)
       = Inr (ratio default_config)
   \<and> init_ratio default_config < ratio default_config
   \<and> closes_window default_config 1 0 (example_start 100)
   \<and> completed (retain_batch spec_collaborators default_config 1 0 0 () (example_start 100))
   \<and> calls_during (example_start 100)
       (state_of (retain_batch spec_collaborators default_config 1 0 0 () (example_start 100)))
     = [ZeroGrad, LrSchedulerStep, OptimizerStep, ScheduleSparsityRatio 100 100,
        UpdateSensitivityDict 1, ClipGradNorm, TrainingStep]"
  by (simp add: run_defs)

subsection \<open>The dual mapping\<close>

lemma build_dual_other:
  "build_dual_sensitivity c fd rd ns acc = Inr dual \<Longrightarrow> k \<notin> set ns \<Longrightarrow>
   map_of dual k = map_of acc k"
proof (induction ns arbitrary: acc)
  case Nil
  then show ?case by simp
next
  case (Cons n ns)
  from Cons.prems obtain f r where f: "map_of fd n = Some f" and r: "map_of rd n = Some r"
    and b: "build_dual_sensitivity c fd rd ns (AList.update n (c f r) acc) = Inr dual"
    by (auto split: option.splits)
  from Cons.prems have "k \<notin> set ns" "k \<noteq> n" by auto
  with Cons.IH[OF b] show ?case by (simp add: update_conv')
qed

lemma build_dual_key:
  "build_dual_sensitivity c fd rd ns acc = Inr dual \<Longrightarrow> k \<in> set ns \<Longrightarrow>
   \<exists>f r. map_of fd k = Some f \<and> map_of rd k = Some r \<and> map_of dual k = Some (c f r)"
proof (induction ns arbitrary: acc)
  case Nil
  then show ?case by simp
next
  case (Cons n ns)
  from Cons.prems obtain f r where f: "map_of fd n = Some f" and r: "map_of rd n = Some r"
    and b: "build_dual_sensitivity c fd rd ns (AList.update n (c f r) acc) = Inr dual"
    by (auto split: option.splits)
  show ?case
  proof (cases "k \<in> set ns")
    case True
    with Cons.IH[OF b] show ?thesis by simp
  next
    case False
    with Cons.prems have "k = n" by simp
    moreover from build_dual_other[OF b False] have "map_of dual k = map_of (AList.update n (c f r) acc) k" .
    ultimately show ?thesis using f r by (simp add: update_conv')
  qed
qed

lemma map_fst_update_new:
  "k \<notin> fst ` set al \<Longrightarrow> map fst (AList.update k v al) = map fst al @ [k]"
  by (induction al) auto

lemma build_dual_order:
  "build_dual_sensitivity c fd rd ns acc = Inr dual \<Longrightarrow> distinct ns \<Longrightarrow>
   set ns \<inter> fst ` set acc = {} \<Longrightarrow> map fst dual = map fst acc @ ns"
proof (induction ns arbitrary: acc)
  case Nil
  then show ?case by simp
next
  case (Cons n ns)
  from Cons.prems(1) obtain f r where
    b: "build_dual_sensitivity c fd rd ns (AList.update n (c f r) acc) = Inr dual"
    by (auto split: option.splits)
  from Cons.prems have n: "n \<notin> fst ` set acc" by auto
  then have m: "map fst (AList.update n (c f r) acc) = map fst acc @ [n]"
    by (rule map_fst_update_new)
  then have "fst ` set (AList.update n (c f r) acc) = insert n (fst ` set acc)"
    by (metis Un_insert_right append_Nil2 list.simps(15) set_append set_map)
  with Cons.prems have "set ns \<inter> fst ` set (AList.update n (c f r) acc) = {}" by auto
  with Cons.IH[OF b] Cons.prems(2) m show ?case by simp
qed

lemma build_dual_total:
  "set ns \<subseteq> fst ` set fd \<Longrightarrow> set ns \<subseteq> fst ` set rd \<Longrightarrow>
   \<exists>dual. build_dual_sensitivity c fd rd ns acc = Inr dual"
proof (induction ns arbitrary: acc)
  case Nil
  then show ?case by simp
next
  case (Cons n ns)
  from Cons.prems obtain f r where "map_of fd n = Some f" "map_of rd n = Some r"
    by (metis insert_subset list.simps(15) map_of_eq_None_iff not_None_eq)
  with Cons show ?case by simp
qed

text \<open>
  C5. When lines 411-416 build the dual mapping, its entry for a group name is
  the combiner applied to that group's forget value and that group's retain
  value, and it has an entry exactly for the keys of the forget dict, in their
  order; it can be built whenever every key of the forget dict is a key of the
  retain dict. Lines 409-424 pass this mapping to \<open>unlearning_prune\<close> and leave the
  store and both dict variables as they were: the mapping itself is kept nowhere.
\<close>

theorem dual_sensitivity_built_per_group:
  "(dual_sensitivity_of env s = Inr dual \<longrightarrow>
      map_of dual g =
        (case map_of (cells (heap s) (forget_sensitivity_dict s)) g of
           None \<Rightarrow> None
         | Some f \<Rightarrow> map_option (compute_dual_sensitivity env f)
                      (map_of (cells (heap s) (retain_sensitivity_dict s)) g)))
   \<and> (dual_sensitivity_of env s = Inr dual
        \<and> distinct (map fst (cells (heap s) (forget_sensitivity_dict s)))
      \<longrightarrow> map fst dual = map fst (cells (heap s) (forget_sensitivity_dict s)))
   \<and> (fst ` set (cells (heap s) (forget_sensitivity_dict s))
        \<subseteq> fst ` set (cells (heap s) (retain_sensitivity_dict s))
      \<longrightarrow> (\<exists>d. dual_sensitivity_of env s = Inr d))
   \<and> (UnlearningPrune d r' t \<in> set (calls_during s (state_of (prune_phase env cfg r s)))
      \<longrightarrow> dual_sensitivity_of env s = Inr d \<and> r' = r \<and> t = unlearning_threshold cfg)
   \<and> heap (state_of (prune_phase env cfg r s)) = heap s
   \<and> forget_sensitivity_dict (state_of (prune_phase env cfg r s)) = forget_sensitivity_dict s
   \<and> retain_sensitivity_dict (state_of (prune_phase env cfg r s)) = retain_sensitivity_dict s"
proof -
  let ?fd = "cells (heap s) (forget_sensitivity_dict s)"
  let ?rd = "cells (heap s) (retain_sensitivity_dict s)"
  let ?c = "compute_dual_sensitivity env"
  have e: "dual_sensitivity_of env s = build_dual_sensitivity ?c ?fd ?rd (map fst ?fd) []"
    by (simp add: dual_sensitivity_of_def Let_def)
  have a: "map_of dual g = (case map_of ?fd g of None \<Rightarrow> None
             | Some f \<Rightarrow> map_option (?c f) (map_of ?rd g))"
    if d: "dual_sensitivity_of env s = Inr dual"
  proof (cases "g \<in> set (map fst ?fd)")
    case True
    from build_dual_key[OF d[unfolded e] True] show ?thesis by auto
  next
    case False
    then have "map_of ?fd g = None" by (simp add: map_of_eq_None_iff)
    with build_dual_other[OF d[unfolded e] False] show ?thesis by simp
  qed
  have b: "map fst dual = map fst ?fd"
    if "dual_sensitivity_of env s = Inr dual" "distinct (map fst ?fd)"
    using build_dual_order[OF that(1)[unfolded e] that(2)] by simp
  have c: "\<exists>d. dual_sensitivity_of env s = Inr d" if "fst ` set ?fd \<subseteq> fst ` set ?rd"
    unfolding e using that by (intro build_dual_total) auto
  have p: "dual_sensitivity_of env s = Inr d \<and> r' = r \<and> t = unlearning_threshold cfg"
    if "UnlearningPrune d r' t \<in> set (calls_during s (state_of (prune_phase env cfg r s)))"
    using that by (auto simp: prune_phase_calls split: sum.splits bool.splits)
  have h: "heap (state_of (prune_phase env cfg r s)) = heap s
     \<and> forget_sensitivity_dict (state_of (prune_phase env cfg r s)) = forget_sensitivity_dict s
     \<and> retain_sensitivity_dict (state_of (prune_phase env cfg r s)) = retain_sensitivity_dict s"
    by (simp add: prune_phase_def record_call_def split: sum.splits bool.splits)
  from a b c p h show ?thesis by blast
qed

theorem dual_sensitivity_built_per_group_witness:
  "dual_sensitivity_of spec_collaborators (example_after_forget 49)
     = Inr [(''A'', [100]), (''B'', [200])]
   \<and> map_of [(''A'', [100 :: real]), (''B'', [200])] ''B''
     = (case map_of (cells (heap (example_after_forget 49))
                (forget_sensitivity_dict (example_after_forget 49))) ''B'' of
          None \<Rightarrow> None
        | Some f \<Rightarrow> map_option (compute_dual_sensitivity spec_collaborators f)
               (map_of (cells (heap (example_after_forget 49))
                  (retain_sensitivity_dict (example_after_forget 49))) ''B''))
   \<and> UnlearningPrune [(''A'', [100]), (''B'', [200])] (1 / 4) (1 / 10)
       \<in> set (calls_during (example_after_forget 49)
           (state_of (prune_phase spec_collaborators default_config (1 / 4) (example_after_forget 49))))"
proof -
  have a: "dual_sensitivity_of spec_collaborators (example_after_forget 49)
     = Inr [(''A'', [100]), (''B'', [200])]"
    by (simp add: run_defs)
  have b: "UnlearningPrune [(''A'', [100]), (''B'', [200])] (1 / 4) (1 / 10)
       \<in> set (calls_during (example_after_forget 49)
           (state_of (prune_phase spec_collaborators default_config (1 / 4) (example_after_forget 49))))"
    by (simp add: run_defs)
  note t = dual_sensitivity_built_per_group[where env = spec_collaborators
      and s = "example_after_forget 49" and dual = "[(''A'', [100]), (''B'', [200])]"
      and g = "''B''" and cfg = default_config and r = "1 / 4"]
  from t a b show ?thesis by blast
qed

subsection \<open>Unfreezing\<close>

lemma training_calls: "batch_calls training_call" "retain_calls env cfg s training_call"
  by (simp_all add: batch_calls_def retain_calls_def forget_calls_def)

lemma retain_batch_since:
  "since s training_call (state_of (retain_batch env cfg n ep step inputs s))"
  by (rule within_step_since[OF retain_batch_within[OF training_calls(2)]])

lemma retain_loop_since:
  "since s training_call (state_of (retain_loop env cfg n ep step batches s))"
proof (induction batches arbitrary: step s)
  case Nil
  show ?case by (simp add: since_refl)
next
  case (Cons inputs rest)
  have b: "since s training_call (state_of (retain_batch env cfg n ep step inputs s))"
    by (rule retain_batch_since)
  show ?case
  proof (cases "retain_batch env cfg n ep step inputs s")
    case (Raised e s1)
    with b show ?thesis by simp
  next
    case (Completed s1)
    with b have s1: "since s training_call s1" by simp
    from s1 Cons.IH
    have "since s training_call (state_of (retain_loop env cfg n ep (step + 1) rest s1))"
      by (rule since_trans)
    with Completed s1 show ?thesis by simp
  qed
qed

lemma since_control: "since s A t \<Longrightarrow> since s A (t\<lparr>control := c\<rparr>)"
  by (simp add: since_def)

lemma train_epoch_since:
  "since s training_call (state_of (train_epoch env cfg ep fb rb s))"
proof -
  let ?n = "if has_len cfg then int (length rb) else max_steps s * gradient_accumulation_steps cfg"
  let ?s1 = "s\<lparr>control := on_epoch_begin env (global_step s) (control s)\<rparr>"
  let ?f = "case fb of None \<Rightarrow> Completed ?s1 | Some b \<Rightarrow> forget_loop env cfg ?n ep 0 b ?s1"
  have s1: "since s training_call ?s1" by (simp add: since_def)
  have "since ?s1 training_call (state_of ?f)"
    by (cases fb) (simp_all add: since_refl forget_loop_since[OF training_calls(1)])
  with s1 have f: "since s training_call (state_of ?f)" by (rule since_trans)
  show ?thesis
  proof (cases ?f)
    case (Raised e s2)
    with f show ?thesis by (simp add: train_epoch_def Let_def)
  next
    case c2: (Completed s2)
    with f have s2: "since s training_call s2" by simp
    let ?r = "retain_loop env cfg ?n ep 0 rb s2"
    from s2 retain_loop_since[of s2 env cfg ?n ep 0 rb]
    have r: "since s training_call (state_of ?r)" by (rule since_trans)
    show ?thesis
    proof (cases ?r)
      case (Raised e s3)
      with r c2 show ?thesis by (simp add: train_epoch_def Let_def)
    next
      case c3: (Completed s3)
      with r have "since s training_call s3" by simp
      then have "since s training_call (state_of (case step_var s3 of
            None \<Rightarrow> Raised (UnboundLocalError ''step'') s3
          | Some step \<Rightarrow>
              let s4 = (if step < 0
                        then s3\<lparr>control := (control s3)\<lparr>should_training_stop := True\<rparr>\<rparr>
                        else s3);
                  s5 = s4\<lparr>control := on_epoch_end env (global_step s4) (control s4)\<rparr>
              in Completed (s5\<lparr>control := maybe_log_save_evaluate env (global_step s5) (control s5)\<rparr>)))"
        by (simp add: since_def Let_def split: option.splits)
      with c2 c3 show ?thesis by (simp add: train_epoch_def Let_def)
    qed
  qed
qed

lemma epoch_loop_since:
  "since s training_call (state_of (epoch_loop env cfg ep batches s))"
proof (induction batches arbitrary: ep s)
  case Nil
  show ?case by (simp add: since_refl)
next
  case (Cons b rest)
  obtain fb rb where b: "b = (fb, rb)" by (cases b)
  have e: "since s training_call (state_of (train_epoch env cfg ep fb rb s))"
    by (rule train_epoch_since)
  show ?case
  proof (cases "train_epoch env cfg ep fb rb s")
    case (Raised e s1)
    with e b show ?thesis by simp
  next
    case (Completed s1)
    with e have s1: "since s training_call s1" by simp
    from s1 Cons.IH
    have "since s training_call (state_of (epoch_loop env cfg (ep + 1) rest s1))"
      by (rule since_trans)
    with Completed s1 b show ?thesis by simp
  qed
qed

lemma start_training_trace:
  "trace (start_training env cfg s0)
   = [InitSensitivityDict (retain_sensitivity_dict (start_training env cfg s0)),
      InitSensitivityDict (forget_sensitivity_dict (start_training env cfg s0))]
     @ (if prune_metric cfg = ''grad'' then [Unfreeze] else []) @ [ZeroGrad] @ trace s0"
  by (simp add: start_training_def record_call_def Let_def split: prod.splits)

lemma start_training_model:
  "model (start_training env cfg s0)
   = (if prune_metric cfg = ''grad'' then unfreeze env (zero_grad env (model s0))
      else zero_grad env (model s0))"
  by (simp add: start_training_def record_call_def Let_def split: prod.splits)

text \<open>
  C6. Before the first epoch the trainer calls \<open>utils.unfreeze\<close> on the model if and
  only if \<open>prune_metric\<close> is \<open>'grad'\<close> (for \<open>'lora'\<close>, as for any other name, the model
  is only passed through \<open>zero_grad\<close>), no training step has run by then, and the
  epochs that follow never call it.
\<close>

theorem unfreeze_iff_grad_metric:
  "(Unfreeze \<in> set (calls_during s0 (start_training env cfg s0))) = (prune_metric cfg = ''grad'')
   \<and> TrainingStep \<notin> set (calls_during s0 (start_training env cfg s0))
   \<and> model (start_training env cfg s0)
     = (if prune_metric cfg = ''grad'' then unfreeze env (zero_grad env (model s0))
        else zero_grad env (model s0))
   \<and> Unfreeze \<notin> set (calls_during (start_training env cfg s0)
        (state_of (inner_training_loop env cfg epochs_trained batches s0)))
   \<and> calls_during s0 (state_of (inner_training_loop env cfg epochs_trained batches s0))
     = calls_during (start_training env cfg s0)
         (state_of (inner_training_loop env cfg epochs_trained batches s0))
       @ calls_during s0 (start_training env cfg s0)"
proof -
  let ?s1 = "start_training env cfg s0"
  let ?t = "state_of (inner_training_loop env cfg epochs_trained batches s0)"
  have c: "calls_during s0 ?s1
     = [InitSensitivityDict (retain_sensitivity_dict ?s1), InitSensitivityDict (forget_sensitivity_dict ?s1)]
       @ (if prune_metric cfg = ''grad'' then [Unfreeze] else []) @ [ZeroGrad]"
    by (simp add: calls_during_def start_training_trace)
  have s: "since ?s1 training_call ?t"
    unfolding inner_training_loop_def by (rule epoch_loop_since)
  then have u: "Unfreeze \<notin> set (calls_during ?s1 ?t)" by (auto dest: since_calls)
  have "since s0 any_call ?s1"
    by (simp add: since_def start_training_trace any_call_def)
  from calls_during_trans[OF this s] have d: "calls_during s0 ?t = calls_during ?s1 ?t @ calls_during s0 ?s1" .
  from c u d start_training_model[of env cfg s0] show ?thesis by simp
qed

theorem unfreeze_iff_grad_metric_witness:
  "prune_metric grad_config = ''grad''
   \<and> Unfreeze \<in> set (calls_during (fresh_trainer 0 100)
         (start_training spec_collaborators grad_config (fresh_trainer 0 100)))
   \<and> prune_metric default_config = ''lora''
   \<and> Unfreeze \<notin> set (calls_during (fresh_trainer 0 100)
         (start_training spec_collaborators default_config (fresh_trainer 0 100)))"
proof -
  have a: "prune_metric grad_config = ''grad''" by (simp add: grad_config_def)
  have b: "prune_metric default_config = ''lora''" by (simp add: default_config_def)
  from a unfreeze_iff_grad_metric[where env = spec_collaborators and cfg = grad_config
      and ?s0.0 = "fresh_trainer 0 100"]
  have c: "Unfreeze \<in> set (calls_during (fresh_trainer 0 100)
         (start_training spec_collaborators grad_config (fresh_trainer 0 100)))"
    by simp
  from b unfreeze_iff_grad_metric[where env = spec_collaborators and cfg = default_config
      and ?s0.0 = "fresh_trainer 0 100"]
  have d: "Unfreeze \<notin> set (calls_during (fresh_trainer 0 100)
         (start_training spec_collaborators default_config (fresh_trainer 0 100)))"
    by simp
  from a b c d show ?thesis by blast
qed

subsection \<open>The two sensitivity dicts\<close>

lemma start_training_dicts:
  "forget_sensitivity_dict (start_training (with_spec_tracker rd env) cfg s0)
     \<noteq> retain_sensitivity_dict (start_training (with_spec_tracker rd env) cfg s0)
   \<and> cells (heap (start_training (with_spec_tracker rd env) cfg s0))
        (forget_sensitivity_dict (start_training (with_spec_tracker rd env) cfg s0))
      = zero_dict rd (model (start_training (with_spec_tracker rd env) cfg s0))
   \<and> cells (heap (start_training (with_spec_tracker rd env) cfg s0))
        (retain_sensitivity_dict (start_training (with_spec_tracker rd env) cfg s0))
      = zero_dict rd (model (start_training (with_spec_tracker rd env) cfg s0))"
  by (simp add: start_training_def with_spec_tracker_def spec_init_sensitivity_dict_def
      zero_dict_def record_call_def Let_def)

lemma spec_update_in_place:
  "spec_update_sensitivity_dict rd m a metric h = Inr (a', h') \<Longrightarrow>
   a' = a \<and> (\<forall>b. b \<noteq> a \<longrightarrow> cells h' b = cells h b)"
  by (auto simp: spec_update_sensitivity_dict_def split: if_splits sum.splits)

lemma forget_keeps_retain:
  "f0 \<noteq> r0 \<Longrightarrow> forget_dicts (with_spec_tracker rd env) cfg (dicts_kept f0 r0 r0 d)"
  by (auto simp: forget_dicts_def with_spec_tracker_def dicts_kept_def dest: spec_update_in_place)

lemma retain_keeps_forget:
  "f0 \<noteq> r0 \<Longrightarrow> retain_dicts (with_spec_tracker rd env) cfg (dicts_kept f0 r0 f0 d)"
  by (auto simp: retain_dicts_def with_spec_tracker_def dicts_kept_def dest: spec_update_in_place)

lemma within_step_dicts: "within_step s0 A K t \<Longrightarrow> dicts_ok K t"
  by (auto simp: within_step_def before_step_def after_step_def)

lemma forget_batch_keeps_retain:
  assumes "forget_sensitivity_dict s \<noteq> retain_sensitivity_dict s"
  shows "dicts_ok (dicts_kept (forget_sensitivity_dict s) (retain_sensitivity_dict s)
           (retain_sensitivity_dict s) (cells (heap s) (retain_sensitivity_dict s)))
         (state_of (forget_batch (with_spec_tracker rd env) cfg n ep step inputs s))"
  by (rule within_step_dicts[where A = any_call and ?s0.0 = s],
      rule triple_state_of[OF forget_batch_inv[OF _ forget_keeps_retain[OF assms]]])
    (simp_all add: before_step_refl dicts_ok_def dicts_kept_def)

lemma retain_batch_keeps_forget:
  assumes "forget_sensitivity_dict s \<noteq> retain_sensitivity_dict s"
  shows "dicts_ok (dicts_kept (forget_sensitivity_dict s) (retain_sensitivity_dict s)
           (forget_sensitivity_dict s) (cells (heap s) (forget_sensitivity_dict s)))
         (state_of (retain_batch (with_spec_tracker rd env) cfg n ep step inputs s))"
  by (rule within_step_dicts[where A = any_call and ?s0.0 = s],
      rule triple_state_of[OF retain_batch_inv[OF _ retain_keeps_forget[OF assms]]])
    (simp_all add: before_step_refl dicts_ok_def dicts_kept_def)

text \<open>
  C4. With the tracker of sections 3 and 4.1, the two dicts the trainer creates
  before the first epoch are distinct objects, each zero over the parameter
  groups of the model. A batch of the forget stream leaves both variables
  pointing where they did and the retain dict's contents as they were; a batch
  of the retain stream, with its pruning decision, does the same for the forget
  dict.
\<close>

theorem sensitivity_dicts_independent:
  "forget_sensitivity_dict (start_training (with_spec_tracker rd env) cfg s0)
     \<noteq> retain_sensitivity_dict (start_training (with_spec_tracker rd env) cfg s0)
   \<and> cells (heap (start_training (with_spec_tracker rd env) cfg s0))
        (forget_sensitivity_dict (start_training (with_spec_tracker rd env) cfg s0))
      = zero_dict rd (model (start_training (with_spec_tracker rd env) cfg s0))
   \<and> cells (heap (start_training (with_spec_tracker rd env) cfg s0))
        (retain_sensitivity_dict (start_training (with_spec_tracker rd env) cfg s0))
      = zero_dict rd (model (start_training (with_spec_tracker rd env) cfg s0))
   \<and> (forget_sensitivity_dict s \<noteq> retain_sensitivity_dict s \<longrightarrow>
        forget_sensitivity_dict (state_of (forget_batch (with_spec_tracker rd env) cfg n ep step inputs s))
          = forget_sensitivity_dict s
        \<and> retain_sensitivity_dict (state_of (forget_batch (with_spec_tracker rd env) cfg n ep step inputs s))
          = retain_sensitivity_dict s
        \<and> cells (heap (state_of (forget_batch (with_spec_tracker rd env) cfg n ep step inputs s)))
            (retain_sensitivity_dict s)
          = cells (heap s) (retain_sensitivity_dict s))
   \<and> (forget_sensitivity_dict s \<noteq> retain_sensitivity_dict s \<longrightarrow>
        forget_sensitivity_dict (state_of (retain_batch (with_spec_tracker rd env) cfg n ep step inputs s))
          = forget_sensitivity_dict s
        \<and> retain_sensitivity_dict (state_of (retain_batch (with_spec_tracker rd env) cfg n ep step inputs s))
          = retain_sensitivity_dict s
        \<and> cells (heap (state_of (retain_batch (with_spec_tracker rd env) cfg n ep step inputs s)))
            (forget_sensitivity_dict s)
          = cells (heap s) (forget_sensitivity_dict s))"
  using start_training_dicts[of rd env cfg s0]
    forget_batch_keeps_retain[of s rd env cfg n ep step inputs]
    retain_batch_keeps_forget[of s rd env cfg n ep step inputs]
  by (simp add: dicts_ok_def dicts_kept_def)

theorem sensitivity_dicts_independent_witness:
  "forget_sensitivity_dict (example_start 50) \<noteq> retain_sensitivity_dict (example_start 50)
   \<and> cells (heap (state_of (forget_batch (with_spec_tracker network_readings spec_collaborators)
         default_config 1 0 0 () (example_start 50)))) (retain_sensitivity_dict (example_start 50))
     = cells (heap (example_start 50)) (retain_sensitivity_dict (example_start 50))
   \<and> cells (heap (state_of (retain_batch (with_spec_tracker network_readings spec_collaborators)
         default_config 1 0 0 () (example_start 50)))) (forget_sensitivity_dict (example_start 50))
     = cells (heap (example_start 50)) (forget_sensitivity_dict (example_start 50))
   \<and> cells (heap (example_start 50)) (forget_sensitivity_dict (example_start 50))
     = [(''A'', [0]), (''B'', [0])]
   \<and> cells (heap (state_of (forget_batch (with_spec_tracker network_readings spec_collaborators)
         default_config 1 0 0 () (example_start 50)))) (forget_sensitivity_dict (example_start 50))
     = [(''A'', [1]), (''B'', [2])]"
proof -
  have a: "forget_sensitivity_dict (example_start 50) \<noteq> retain_sensitivity_dict (example_start 50)"
    by (simp add: run_defs)
  note t = sensitivity_dicts_independent[where rd = network_readings and env = spec_collaborators
      and cfg = default_config and n = 1 and ep = 0 and step = 0 and inputs = "()"
      and s = "example_start 50"]
  from t a have b: "cells (heap (state_of (forget_batch (with_spec_tracker network_readings spec_collaborators)
         default_config 1 0 0 () (example_start 50)))) (retain_sensitivity_dict (example_start 50))
     = cells (heap (example_start 50)) (retain_sensitivity_dict (example_start 50))"
    by blast
  from t a have c: "cells (heap (state_of (retain_batch (with_spec_tracker network_readings spec_collaborators)
         default_config 1 0 0 () (example_start 50)))) (forget_sensitivity_dict (example_start 50))
     = cells (heap (example_start 50)) (forget_sensitivity_dict (example_start 50))"
    by blast
  have d: "cells (heap (example_start 50)) (forget_sensitivity_dict (example_start 50))
     = [(''A'', [0]), (''B'', [0])]"
    by (simp add: run_defs)
  have e: "cells (heap (state_of (forget_batch (with_spec_tracker network_readings spec_collaborators)
         default_config 1 0 0 () (example_start 50)))) (forget_sensitivity_dict (example_start 50))
     = [(''A'', [1]), (''B'', [2])]"
    by (simp add: run_defs with_spec_tracker_def)
  from a b c d e show ?thesis by blast
qed

subsection \<open>The threshold\<close>

lemma group_candidates_score:
  "((g', j), v) \<in> set (group_candidates g i es xs) \<Longrightarrow>
   g' = g \<and> i \<le> j \<and> j - i < length xs \<and> v = xs ! (j - i)"
proof (induction g i es xs rule: group_candidates.induct)
  case (1 g i e es x xs)
  then consider (here) "((g', j), v) = ((g, i), x)"
    | (later) "((g', j), v) \<in> set (group_candidates g (Suc i) es xs)"
    by (auto split: if_splits)
  then show ?case
  proof cases
    case here
    then show ?thesis by simp
  next
    case later
    with "1.IH" have "g' = g \<and> Suc i \<le> j \<and> j - Suc i < length xs \<and> v = xs ! (j - Suc i)"
      by (cases "pruned e") auto
    then show ?thesis by (auto simp: nth_Cons')
  qed
qed simp_all

lemma candidates_score:
  "((g, i), v) \<in> set (candidates net dual) \<Longrightarrow> score_at dual g i = Some v"
proof (induction net)
  case Nil
  then show ?case by simp
next
  case (Cons p net)
  obtain g0 es where p: "p = (g0, es)" by (cases p)
  show ?case
  proof (cases "map_of dual g0")
    case None
    with Cons p show ?thesis by simp
  next
    case (Some xs)
    with Cons.prems p consider (here) "((g, i), v) \<in> set (group_candidates g0 0 es xs)"
      | (later) "((g, i), v) \<in> set (candidates net dual)"
      by auto
    then show ?thesis
    proof cases
      case here
      from group_candidates_score[OF here] Some show ?thesis by (simp add: score_at_def)
    next
      case later
      then show ?thesis by (rule Cons.IH)
    qed
  qed
qed

lemma selected_score:
  assumes "(g, i) \<in> set (selected net dual r thr)"
  shows "\<exists>v. score_at dual g i = Some v \<and> thr < v"
proof -
  from assms obtain v where
    m: "((g, i), v) \<in> set (filter (\<lambda>c. thr < snd c)
          (take (needed net r) (sort_key (\<lambda>c. - snd c) (candidates net dual))))"
    by (auto simp: selected_def)
  then have t: "thr < v" by simp
  from m have "((g, i), v) \<in> set (take (needed net r) (sort_key (\<lambda>c. - snd c) (candidates net dual)))"
    by simp
  then have "((g, i), v) \<in> set (sort_key (\<lambda>c. - snd c) (candidates net dual))"
    by (rule in_set_takeD)
  then have "((g, i), v) \<in> set (candidates net dual)" by simp
  with t show ?thesis by (blast dest: candidates_score)
qed

lemma length_zero_out: "length (zero_out g sel j es) = length es"
  by (induction es arbitrary: j) simp_all

lemma zero_out_nth:
  "i < length es \<Longrightarrow>
   zero_out g sel j es ! i
   = (if (g, j + i) \<in> set sel then (es ! i)\<lparr>weight := 0, pruned := True\<rparr> else es ! i)"
proof (induction es arbitrary: i j)
  case Nil
  then show ?case by simp
next
  case (Cons e es)
  show ?case
  proof (cases i)
    case 0
    then show ?thesis by simp
  next
    case (Suc k)
    with Cons.prems have "k < length es" by simp
    from Cons.IH[OF this, of "Suc j"] Suc show ?thesis by simp
  qed
qed

lemma map_of_map_key:
  "map_of (map (\<lambda>(k, v). (k, f k v)) xs) k = map_option (f k) (map_of xs k)"
  by (induction xs) auto

lemma spec_unlearning_prune_keeps:
  assumes p: "spec_unlearning_prune net dual r thr = Inr net'"
      and s: "score_at dual g i = Some v" and v: "v \<le> thr"
  shows "element_at net' g i = element_at net g i"
proof -
  let ?sel = "selected net dual r thr"
  from p have n: "net' = map (\<lambda>(g, es). (g, zero_out g ?sel 0 es)) net"
    by (simp add: spec_unlearning_prune_def split: if_splits)
  have ns: "(g, i) \<notin> set ?sel"
  proof
    assume "(g, i) \<in> set ?sel"
    from selected_score[OF this] s v show False by auto
  qed
  have m: "map_of net' g = map_option (zero_out g ?sel 0) (map_of net g)"
    unfolding n by (rule map_of_map_key)
  show ?thesis
  proof (cases "map_of net g")
    case None
    with m show ?thesis by (simp add: element_at_def)
  next
    case (Some es)
    with m ns show ?thesis
      by (simp add: element_at_def length_zero_out zero_out_nth)
  qed
qed

lemma prune_phase_model:
  "model (state_of (prune_phase env cfg r s)) = model s
   \<or> (\<exists>dual. dual_sensitivity_of env s = Inr dual
        \<and> unlearning_prune env (model s) dual r (unlearning_threshold cfg)
            = Inr (model (state_of (prune_phase env cfg r s))))"
  by (simp add: prune_phase_def record_call_def split: sum.splits bool.splits)

text \<open>
  C7. With the applicator of section 4.4, an element whose dual score is at most
  the threshold is left as it is by a pruning call, neither zeroed nor marked,
  whatever the target ratio asks for; and in lines 409-424, where the threshold
  is \<open>unlearning_threshold\<close> and the scores are the dual mapping just built, the
  element is the same in the model after the phase as before it.
\<close>

theorem threshold_gate:
  "(spec_unlearning_prune net dual r thr = Inr net' \<and> score_at dual g i = Some v \<and> v \<le> thr
      \<longrightarrow> element_at net' g i = element_at net g i)
   \<and> (unlearning_prune env = spec_unlearning_prune \<and> dual_sensitivity_of env s = Inr dual
       \<and> score_at dual g i = Some v \<and> v \<le> unlearning_threshold cfg
      \<longrightarrow> element_at (model (state_of (prune_phase env cfg r s))) g i = element_at (model s) g i)"
proof (intro conjI impI)
  assume "spec_unlearning_prune net dual r thr = Inr net' \<and> score_at dual g i = Some v \<and> v \<le> thr"
  then show "element_at net' g i = element_at net g i"
    by (blast intro: spec_unlearning_prune_keeps)
next
  assume a: "unlearning_prune env = spec_unlearning_prune \<and> dual_sensitivity_of env s = Inr dual
       \<and> score_at dual g i = Some v \<and> v \<le> unlearning_threshold cfg"
  from prune_phase_model[of env cfg r s]
  show "element_at (model (state_of (prune_phase env cfg r s))) g i = element_at (model s) g i"
  proof
    assume "model (state_of (prune_phase env cfg r s)) = model s"
    then show ?thesis by simp
  next
    assume "\<exists>dual. dual_sensitivity_of env s = Inr dual
        \<and> unlearning_prune env (model s) dual r (unlearning_threshold cfg)
            = Inr (model (state_of (prune_phase env cfg r s)))"
    with a have "spec_unlearning_prune (model s) dual r (unlearning_threshold cfg)
            = Inr (model (state_of (prune_phase env cfg r s)))"
      by auto
    with a show ?thesis by (blast intro: spec_unlearning_prune_keeps)
  qed
qed

theorem threshold_gate_witness:
  "spec_unlearning_prune two_groups [(''A'', [10]), (''B'', [1 / 10])] 1 (1 / 2)
     = Inr [(''A'', [\<lparr>weight = 0, pruned = True\<rparr>]), (''B'', [\<lparr>weight = 2, pruned = False\<rparr>])]
   \<and> score_at [(''A'', [10]), (''B'', [1 / 10])] ''B'' 0 = Some (1 / 10)
   \<and> (1 / 10 :: real) \<le> 1 / 2
   \<and> element_at [(''A'', [\<lparr>weight = 0, pruned = True\<rparr>]), (''B'', [\<lparr>weight = 2, pruned = False\<rparr>])] ''B'' 0
     = element_at two_groups ''B'' 0
   \<and> unlearning_prune spec_collaborators = spec_unlearning_prune
   \<and> dual_sensitivity_of spec_collaborators (example_start 50) = Inr [(''A'', [0]), (''B'', [0])]
   \<and> score_at [(''A'', [0]), (''B'', [0])] ''A'' 0 = Some 0
   \<and> 0 \<le> unlearning_threshold default_config
   \<and> element_at (model (state_of (prune_phase spec_collaborators default_config (1 / 4) (example_start 50)))) ''A'' 0
     = element_at (model (example_start 50)) ''A'' 0"
proof -
  have a: "spec_unlearning_prune two_groups [(''A'', [10]), (''B'', [1 / 10])] 1 (1 / 2)
     = Inr [(''A'', [\<lparr>weight = 0, pruned = True\<rparr>]), (''B'', [\<lparr>weight = 2, pruned = False\<rparr>])]"
    by (simp add: run_defs)
  have b: "score_at [(''A'', [10]), (''B'', [1 / 10])] ''B'' 0 = Some (1 / 10)"
    by (simp add: score_at_def)
  have c: "unlearning_prune spec_collaborators = spec_unlearning_prune"
    by (simp add: spec_collaborators_def)
  have d: "dual_sensitivity_of spec_collaborators (example_start 50) = Inr [(''A'', [0]), (''B'', [0])]"
    by (simp add: run_defs)
  have e: "score_at [(''A'', [0]), (''B'', [0])] ''A'' 0 = Some 0"
    by (simp add: score_at_def)
  have f: "0 \<le> unlearning_threshold default_config" by (simp add: default_config_def)
  have le: "(1 / 10 :: real) \<le> 1 / 2" by simp
  from a b le threshold_gate[where net = two_groups and dual = "[(''A'', [10]), (''B'', [1 / 10])]"
      and r = 1 and thr = "1 / 2" and g = "''B''" and i = 0 and v = "1 / 10"
      and net' = "[(''A'', [\<lparr>weight = 0, pruned = True\<rparr>]), (''B'', [\<lparr>weight = 2, pruned = False\<rparr>])]"
      and env = spec_collaborators and s = "example_start 50" and cfg = default_config]
  have g: "element_at [(''A'', [\<lparr>weight = 0, pruned = True\<rparr>]), (''B'', [\<lparr>weight = 2, pruned = False\<rparr>])] ''B'' 0
     = element_at two_groups ''B'' 0"
    by blast
  from c d e f threshold_gate[where env = spec_collaborators and s = "example_start 50"
      and dual = "[(''A'', [0]), (''B'', [0])]" and g = "''A''" and i = 0 and v = 0
      and cfg = default_config and r = "1 / 4" and net = two_groups and net' = two_groups
      and thr = 0]
  have h: "element_at (model (state_of (prune_phase spec_collaborators default_config (1 / 4) (example_start 50)))) ''A'' 0
     = element_at (model (example_start 50)) ''A'' 0"
    by blast
  from a b c d e f g h le show ?thesis by blast
qed

subsection \<open>The schedule\<close>

lemma rise_nonneg: "0 \<le> x \<Longrightarrow> x \<le> 1 \<Longrightarrow> 0 \<le> rise i x"
proof (cases i)
  case Linear
  assume "0 \<le> x"
  with Linear show ?thesis by simp
next
  case Smoothstep
  assume "0 \<le> x" "x \<le> 1"
  then have "0 \<le> x * x" "0 \<le> 3 - 2 * x" by simp_all
  then have "0 \<le> (x * x) * (3 - 2 * x)" by (rule mult_nonneg_nonneg)
  with Smoothstep show ?thesis by simp
qed

lemma rise_le_one: "0 \<le> x \<Longrightarrow> x \<le> 1 \<Longrightarrow> rise i x \<le> 1"
proof (cases i)
  case Linear
  assume "x \<le> 1"
  with Linear show ?thesis by simp
next
  case Smoothstep
  assume "0 \<le> x" "x \<le> 1"
  then have "0 \<le> (1 - x) * (1 - x)" "0 \<le> 1 + 2 * x" by simp_all
  then have "0 \<le> ((1 - x) * (1 - x)) * (1 + 2 * x)" by (rule mult_nonneg_nonneg)
  moreover have "((1 - x) * (1 - x)) * (1 + 2 * x) = 1 - x * x * (3 - 2 * x)"
    by (simp add: algebra_simps)
  ultimately show ?thesis using Smoothstep by simp
qed

lemma rise_mono: "0 \<le> x \<Longrightarrow> x \<le> y \<Longrightarrow> y \<le> 1 \<Longrightarrow> rise i x \<le> rise i y"
proof (cases i)
  case Linear
  assume "x \<le> y"
  with Linear show ?thesis by simp
next
  case Smoothstep
  assume a: "0 \<le> x" "x \<le> y" "y \<le> 1"
  then have "0 \<le> x * (3 - 2 * x - y)" "0 \<le> y * (3 - 2 * y - x)"
    by simp_all
  then have "0 \<le> x * (3 - 2 * x - y) + y * (3 - 2 * y - x)" by simp
  with a have "0 \<le> (y - x) * (x * (3 - 2 * x - y) + y * (3 - 2 * y - x))"
    by simp
  moreover have "(y - x) * (x * (3 - 2 * x - y) + y * (3 - 2 * y - x))
      = y * y * (3 - 2 * y) - x * x * (3 - 2 * x)"
    by (simp add: algebra_simps)
  ultimately show ?thesis using Smoothstep by simp
qed

lemma ratio_at_bounds:
  assumes t: "0 < total_steps" and f: "init \<le> final"
  shows "\<exists>r. ratio_at i step total_steps w c init final = Inr r \<and> init \<le> r \<and> r \<le> final"
proof -
  let ?p = "real_of_int step / real_of_int total_steps"
  let ?x = "(?p - w) / (1 - c - w)"
  show ?thesis
  proof (cases "?p < w \<or> 1 \<le> w + c \<or> 1 - c \<le> ?p")
    case True
    with t f show ?thesis by (auto simp: ratio_at_def Let_def)
  next
    case False
    then have d: "0 < 1 - c - w" and n: "0 \<le> ?p - w" and u: "?p - w \<le> 1 - c - w" by simp_all
    from d n have x0: "0 \<le> ?x" by simp
    from d u have x1: "?x \<le> 1" by simp
    from f rise_nonneg[OF x0 x1, of i] have "0 \<le> (final - init) * rise i ?x" by simp
    moreover from f rise_le_one[OF x0 x1, of i] have "(final - init) * rise i ?x \<le> (final - init) * 1"
      by (intro mult_left_mono) simp_all
    ultimately have "init \<le> init + (final - init) * rise i ?x"
      "init + (final - init) * rise i ?x \<le> final" by simp_all
    with False t show ?thesis by (simp add: ratio_at_def Let_def)
  qed
qed

lemma ratio_at_mono:
  assumes t: "0 < total_steps" and f: "init \<le> final" and s: "step1 \<le> step2"
      and r1: "ratio_at i step1 total_steps w c init final = Inr r1"
      and r2: "ratio_at i step2 total_steps w c init final = Inr r2"
  shows "r1 \<le> r2"
proof -
  let ?p1 = "real_of_int step1 / real_of_int total_steps"
  let ?p2 = "real_of_int step2 / real_of_int total_steps"
  let ?x1 = "(?p1 - w) / (1 - c - w)"
  let ?x2 = "(?p2 - w) / (1 - c - w)"
  from t s have p: "?p1 \<le> ?p2" by (simp add: divide_right_mono)
  from ratio_at_bounds[OF t f, of i step1 w c] r1 have b1: "init \<le> r1" "r1 \<le> final" by auto
  from ratio_at_bounds[OF t f, of i step2 w c] r2 have b2: "init \<le> r2" "r2 \<le> final" by auto
  show ?thesis
  proof (cases "1 \<le> w + c \<or> 1 - c \<le> ?p2")
    case True
    with t r2 have "r2 = init \<and> ?p2 < w \<or> r2 = final"
      by (auto simp: ratio_at_def Let_def split: if_splits)
    then show ?thesis
    proof
      assume "r2 = init \<and> ?p2 < w"
      with p t r1 have "r1 = init" by (auto simp: ratio_at_def Let_def split: if_splits)
      with b2 show ?thesis by simp
    next
      assume "r2 = final"
      with b1 show ?thesis by simp
    qed
  next
    case mid: False
    show ?thesis
    proof (cases "?p2 < w")
      case True
      with p t r1 r2 have "r1 = init" "r2 = init"
        by (auto simp: ratio_at_def Let_def split: if_splits)
      then show ?thesis by simp
    next
      case False
      with mid t r2 have e2: "r2 = init + (final - init) * rise i ?x2"
        by (simp add: ratio_at_def Let_def)
      show ?thesis
      proof (cases "?p1 < w")
        case True
        with t r1 have "r1 = init" by (simp add: ratio_at_def Let_def)
        with b2 show ?thesis by simp
      next
        case p1: False
        with mid p t r1 have e1: "r1 = init + (final - init) * rise i ?x1"
          by (simp add: ratio_at_def Let_def)
        from mid have d: "0 < 1 - c - w" by simp
        from d p1 have x0: "0 \<le> ?x1" by simp
        from d p have x12: "?x1 \<le> ?x2" by (simp add: divide_right_mono)
        from d mid have x1: "?x2 \<le> 1" by simp
        from f rise_mono[OF x0 x12 x1, of i]
        have "(final - init) * rise i ?x1 \<le> (final - init) * rise i ?x2"
          by (intro mult_left_mono) simp_all
        with e1 e2 show ?thesis by simp
      qed
    qed
  qed
qed

text \<open>
  C8, for the schedule of section 4.2. When \<open>max_steps\<close> is positive and \<open>init_ratio\<close>
  is at most the final ratio, the schedule returns a ratio at every step, with
  either interpolation the section allows, and a later step never gets a
  smaller ratio.
\<close>

theorem schedule_monotone:
  assumes "0 < total_steps" and "init \<le> final" and "step1 < step2"
  shows "\<exists>r1 r2. ratio_at i step1 total_steps w c init final = Inr r1
           \<and> ratio_at i step2 total_steps w c init final = Inr r2 \<and> r1 \<le> r2"
proof -
  from ratio_at_bounds[OF assms(1,2), of i step1 w c]
  obtain r1 where r1: "ratio_at i step1 total_steps w c init final = Inr r1" by blast
  from ratio_at_bounds[OF assms(1,2), of i step2 w c]
  obtain r2 where r2: "ratio_at i step2 total_steps w c init final = Inr r2" by blast
  from assms(3) have "step1 \<le> step2" by simp
  from ratio_at_mono[OF assms(1,2) this r1 r2] r1 r2 show ?thesis by blast
qed

theorem schedule_monotone_witness:
  "(0 :: int) < 100 \<and> (0 :: real) \<le> 1 / 2 \<and> (5 :: int) < 50
   \<and> (\<exists>r1 r2. ratio_at Smoothstep 5 100 (1 / 10) (1 / 10) 0 (1 / 2) = Inr r1
          \<and> ratio_at Smoothstep 50 100 (1 / 10) (1 / 10) 0 (1 / 2) = Inr r2 \<and> r1 \<le> r2)
   \<and> ratio_at Linear 5 100 (1 / 10) (1 / 10) 0 (1 / 2) = Inr 0
   \<and> ratio_at Linear 50 100 (1 / 10) (1 / 10) 0 (1 / 2) = Inr (1 / 4)
   \<and> ratio_at Linear 95 100 (1 / 10) (1 / 10) 0 (1 / 2) = Inr (1 / 2)"
proof -
  have a: "(0 :: int) < 100" "(0 :: real) \<le> 1 / 2" "(5 :: int) < 50" by simp_all
  have b: "ratio_at Linear 5 100 (1 / 10) (1 / 10) 0 (1 / 2) = Inr 0"
    "ratio_at Linear 50 100 (1 / 10) (1 / 10) 0 (1 / 2) = Inr (1 / 4)"
    "ratio_at Linear 95 100 (1 / 10) (1 / 10) 0 (1 / 2) = Inr (1 / 2)"
    by (simp_all add: ratio_at_def)
  from schedule_monotone[OF a, of Smoothstep "1 / 10" "1 / 10"] a b show ?thesis by blast
qed

text \<open>
  C8 as stated, for every choice of the two ratios, fails: with \<open>init_ratio\<close> above
  the final ratio the warmup value is above the cooldown value.
\<close>

theorem schedule_decreases_when_init_above_final:
  "(5 :: int) < 95
   \<and> ratio_at Linear 5 100 (1 / 10) (1 / 10) (1 / 2) 0 = Inr (1 / 2)
   \<and> ratio_at Linear 95 100 (1 / 10) (1 / 10) (1 / 2) 0 = Inr 0
   \<and> \<not> ((1 / 2 :: real) \<le> 0)"
  by (simp add: ratio_at_def)

end
